theory Spec2Isabelle
  imports Main "HOL-Library.Word"
begin

unbundle bit_operations_syntax

section \<open>The Linux sandbox observer (bxl\_observer.cpp)\<close>

text \<open>
  A shallow embedding of the member functions of \<open>BxlObserver\<close> in
  \<open>Public/Src/Sandbox/Linux/bxl_observer.cpp\<close>. The observer object is a record that
  every member function takes and returns. What the operating system, the mutex and the
  policy engine answer is passed in as arguments, so that each function of the model is a
  function of everything the C++ function depends on. A call of \<open>_fatal\<close> or
  \<open>exit\<close> ends the process: it is the left summand of a sum type. The calls of
  \<open>LOG_DEBUG\<close> are left out: they send a debug message when logging is enabled and
  change no member that the functions below read.
\<close>

subsection \<open>Types of the headers\<close>

text \<open>
  The event kinds that bxl\_observer.cpp names; every other enumerator of
  \<open>es_event_type_t\<close> is \<open>ES_EVENT_TYPE_OTHER n\<close>.
\<close>

datatype es_event_type_t =
    ES_EVENT_TYPE_NOTIFY_EXEC
  | ES_EVENT_TYPE_NOTIFY_FORK
  | ES_EVENT_TYPE_NOTIFY_EXIT
  | ES_EVENT_TYPE_NOTIFY_READLINK
  | ES_EVENT_TYPE_NOTIFY_TRUNCATE
  | ES_EVENT_TYPE_NOTIFY_SETATTRLIST
  | ES_EVENT_TYPE_NOTIFY_SETEXTATTR
  | ES_EVENT_TYPE_NOTIFY_DELETEEXTATTR
  | ES_EVENT_TYPE_NOTIFY_SETFLAGS
  | ES_EVENT_TYPE_NOTIFY_SETOWNER
  | ES_EVENT_TYPE_NOTIFY_SETMODE
  | ES_EVENT_TYPE_NOTIFY_WRITE
  | ES_EVENT_TYPE_NOTIFY_UTIMES
  | ES_EVENT_TYPE_NOTIFY_SETTIME
  | ES_EVENT_TYPE_NOTIFY_SETACL
  | ES_EVENT_TYPE_NOTIFY_GETATTRLIST
  | ES_EVENT_TYPE_NOTIFY_GETEXTATTR
  | ES_EVENT_TYPE_NOTIFY_LISTEXTATTR
  | ES_EVENT_TYPE_NOTIFY_ACCESS
  | ES_EVENT_TYPE_NOTIFY_STAT
  | ES_EVENT_TYPE_OTHER nat

datatype FileOperation =
    kOpProcessTreeCompleted
  | kOpDebugMessage
  | kOpStaticallyLinkedProcess
  | kOpProcessCommandLine
  | kOpFirstAllowWriteCheckInProcess
  | kOpOther nat

datatype RequestedAccess = RequestedAccess_None | RequestedAccess_Read | RequestedAccess_Write

datatype FileAccessStatus = FileAccessStatus_Allowed | FileAccessStatus_Denied

datatype ReportLevel = ReportLevel_Ignore | ReportLevel_Report

datatype ResultAction = ResultAction_Allow | ResultAction_Deny

type_synonym pid_t = int

type_synonym mode_t = "32 word"

text \<open>The fields of \<open>AccessReport\<close> that the designated initialisers of the file set
  (\<open>stats\<close> is always zeroed there and is left out).\<close>

record AccessReport =
  operation :: FileOperation
  pid :: pid_t
  rootPid :: pid_t
  requestedAccess :: RequestedAccess
  status :: FileAccessStatus
  reportExplicitly :: ReportLevel
  error :: int
  pipId :: int
  path :: string
  isDirectory :: bool
  shouldReport :: bool

record AccessReportGroup =
  firstReport :: AccessReport
  secondReport :: AccessReport

text \<open>\<open>AccessCheckResult(access, action, level)\<close>, as line 729 constructs it.\<close>

datatype AccessCheckResult = AccessCheckResult RequestedAccess ResultAction ReportLevel

text \<open>Modelled from the spec: \<open>AccessCheckResult::ShouldDenyAccess\<close> is declared in a
  header that is not part of the sources at hand; the decision "allow or deny" of the
  policy engine is the action of the result.\<close>

fun ShouldDenyAccess :: "AccessCheckResult \<Rightarrow> bool" where
  "ShouldDenyAccess (AccessCheckResult a act l) = (act = ResultAction_Deny)"

text \<open>The arguments of the \<open>IOEvent\<close> constructor, in the order of line 503.\<close>

record IOEvent =
  ev_pid :: pid_t
  ev_cpid :: pid_t
  ev_ppid :: pid_t
  ev_eventType :: es_event_type_t
  ev_srcPath :: string
  ev_dstPath :: string
  ev_execPath :: string
  ev_mode :: mode_t
  ev_modified :: bool

subsection \<open>The observer object\<close>

text \<open>
  The data members that the modelled functions read or write, named without the trailing
  underscore of the source. \<open>fdTable\<close> is the array
  \<open>std::string fdTable_[MAX_FD]\<close>: its length is \<open>MAX_FD\<close>. \<open>sNotChecked\<close> is the
  static member initialised from \<open>AccessCheckResult::Invalid()\<close>. The two flags are what
  \<open>CheckEnableLinuxPTraceSandbox\<close> and \<open>CheckUnconditionallyEnableLinuxPTraceSandbox\<close>
  answer on the extra flags of the manifest, \<open>failUnexpected\<close> is
  \<open>IsFailingUnexpectedAccesses()\<close>.
\<close>

record BxlObserver =
  disposed :: bool
  cache :: "es_event_type_t \<rightharpoonup> string set"
  useFdTable :: bool
  fdTable :: "string list"
  forcedPTraceProcessNames :: "string list"
  staticallyLinkedProcessCache :: "(string \<times> bool) list"
  progFullPath :: string
  sNotChecked :: AccessCheckResult
  ptraceSandboxEnabled :: bool
  ptraceUnconditionallyEnabled :: bool
  failUnexpected :: bool
  pipProcessId :: pid_t
  pipPipId :: int

definition MAX_FD :: "BxlObserver \<Rightarrow> int" where
  "MAX_FD obs = int (length (fdTable obs))"

subsection \<open>The duplicate cache\<close>

text \<open>
  The \<open>switch\<close> of \<open>CheckCache\<close> (lines 201 to 227). The first group of labels assigns
  \<open>ES_EVENT_TYPE_NOTIFY_WRITE\<close> and leaves the switch. The second group assigns
  \<open>ES_EVENT_TYPE_NOTIFY_STAT\<close> and, there being no \<open>break\<close>, runs on into the
  \<open>default\<close> label, which assigns the event itself.
\<close>

definition default_label :: "es_event_type_t \<Rightarrow> es_event_type_t \<Rightarrow> es_event_type_t" where
  "default_label event key = event"

fun coalesce :: "es_event_type_t \<Rightarrow> es_event_type_t" where
  "coalesce ES_EVENT_TYPE_NOTIFY_TRUNCATE = ES_EVENT_TYPE_NOTIFY_WRITE"
| "coalesce ES_EVENT_TYPE_NOTIFY_SETATTRLIST = ES_EVENT_TYPE_NOTIFY_WRITE"
| "coalesce ES_EVENT_TYPE_NOTIFY_SETEXTATTR = ES_EVENT_TYPE_NOTIFY_WRITE"
| "coalesce ES_EVENT_TYPE_NOTIFY_DELETEEXTATTR = ES_EVENT_TYPE_NOTIFY_WRITE"
| "coalesce ES_EVENT_TYPE_NOTIFY_SETFLAGS = ES_EVENT_TYPE_NOTIFY_WRITE"
| "coalesce ES_EVENT_TYPE_NOTIFY_SETOWNER = ES_EVENT_TYPE_NOTIFY_WRITE"
| "coalesce ES_EVENT_TYPE_NOTIFY_SETMODE = ES_EVENT_TYPE_NOTIFY_WRITE"
| "coalesce ES_EVENT_TYPE_NOTIFY_WRITE = ES_EVENT_TYPE_NOTIFY_WRITE"
| "coalesce ES_EVENT_TYPE_NOTIFY_UTIMES = ES_EVENT_TYPE_NOTIFY_WRITE"
| "coalesce ES_EVENT_TYPE_NOTIFY_SETTIME = ES_EVENT_TYPE_NOTIFY_WRITE"
| "coalesce ES_EVENT_TYPE_NOTIFY_SETACL = ES_EVENT_TYPE_NOTIFY_WRITE"
| "coalesce ES_EVENT_TYPE_NOTIFY_GETATTRLIST =
     default_label ES_EVENT_TYPE_NOTIFY_GETATTRLIST ES_EVENT_TYPE_NOTIFY_STAT"
| "coalesce ES_EVENT_TYPE_NOTIFY_GETEXTATTR =
     default_label ES_EVENT_TYPE_NOTIFY_GETEXTATTR ES_EVENT_TYPE_NOTIFY_STAT"
| "coalesce ES_EVENT_TYPE_NOTIFY_LISTEXTATTR =
     default_label ES_EVENT_TYPE_NOTIFY_LISTEXTATTR ES_EVENT_TYPE_NOTIFY_STAT"
| "coalesce ES_EVENT_TYPE_NOTIFY_ACCESS =
     default_label ES_EVENT_TYPE_NOTIFY_ACCESS ES_EVENT_TYPE_NOTIFY_STAT"
| "coalesce ES_EVENT_TYPE_NOTIFY_STAT =
     default_label ES_EVENT_TYPE_NOTIFY_STAT ES_EVENT_TYPE_NOTIFY_STAT"
| "coalesce event = default_label event event"

text \<open>The labels of the two groups, for stating properties of them.\<close>

definition write_variants :: "es_event_type_t set" where
  "write_variants =
    {ES_EVENT_TYPE_NOTIFY_TRUNCATE, ES_EVENT_TYPE_NOTIFY_SETATTRLIST,
     ES_EVENT_TYPE_NOTIFY_SETEXTATTR, ES_EVENT_TYPE_NOTIFY_DELETEEXTATTR,
     ES_EVENT_TYPE_NOTIFY_SETFLAGS, ES_EVENT_TYPE_NOTIFY_SETOWNER,
     ES_EVENT_TYPE_NOTIFY_SETMODE, ES_EVENT_TYPE_NOTIFY_WRITE,
     ES_EVENT_TYPE_NOTIFY_UTIMES, ES_EVENT_TYPE_NOTIFY_SETTIME,
     ES_EVENT_TYPE_NOTIFY_SETACL}"

definition stat_variants :: "es_event_type_t set" where
  "stat_variants =
    {ES_EVENT_TYPE_NOTIFY_GETATTRLIST, ES_EVENT_TYPE_NOTIFY_GETEXTATTR,
     ES_EVENT_TYPE_NOTIFY_LISTEXTATTR, ES_EVENT_TYPE_NOTIFY_ACCESS,
     ES_EVENT_TYPE_NOTIFY_STAT}"

text \<open>
  \<open>CheckCache\<close> (lines 197 to 262). \<open>lockAcquired\<close> is what
  \<open>cacheMtx_.try_lock_for(1ms)\<close> returns. The result of
  \<open>it->second.insert(path).second\<close> is true when the path was not in the set.
\<close>

definition CheckCache ::
  "bool \<Rightarrow> es_event_type_t \<Rightarrow> string \<Rightarrow> bool \<Rightarrow> BxlObserver \<Rightarrow> bool \<times> BxlObserver" where
  "CheckCache lockAcquired event pth addEntryIfMissing obs =
    (let key = coalesce event in
     if \<not> lockAcquired then (False, obs)
     else
       (case cache obs key of
          None \<Rightarrow>
            (False,
             if addEntryIfMissing then obs\<lparr>cache := (cache obs)(key \<mapsto> {pth})\<rparr> else obs)
        | Some paths \<Rightarrow>
            if addEntryIfMissing
            then (pth \<in> paths, obs\<lparr>cache := (cache obs)(key \<mapsto> insert pth paths)\<rparr>)
            else (pth \<in> paths, obs)))"

text \<open>\<open>IsCacheHit\<close> (lines 264 to 281).\<close>

definition IsCacheHit ::
  "bool \<Rightarrow> es_event_type_t \<Rightarrow> string \<Rightarrow> string \<Rightarrow> BxlObserver \<Rightarrow> bool \<times> BxlObserver" where
  "IsCacheHit lockAcquired event pth secondPath obs =
    (if disposed obs \<or> length secondPath > 0
        \<or> event = ES_EVENT_TYPE_NOTIFY_FORK
        \<or> event = ES_EVENT_TYPE_NOTIFY_EXEC
        \<or> event = ES_EVENT_TYPE_NOTIFY_EXIT
     then (False, obs)
     else CheckCache lockAcquired event pth False obs)"

subsection \<open>Building an access\<close>

text \<open>The file-type macros of \<open>sys/stat.h\<close> on Linux.\<close>

definition S_IFMT :: mode_t where "S_IFMT = 0xF000"
definition S_IFDIR :: mode_t where "S_IFDIR = 0x4000"
definition S_IFREG :: mode_t where "S_IFREG = 0x8000"
definition S_IFLNK :: mode_t where "S_IFLNK = 0xA000"

definition S_ISDIR :: "mode_t \<Rightarrow> bool" where "S_ISDIR m = (m AND S_IFMT = S_IFDIR)"
definition S_ISREG :: "mode_t \<Rightarrow> bool" where "S_ISREG m = (m AND S_IFMT = S_IFREG)"
definition S_ISLNK :: "mode_t \<Rightarrow> bool" where "S_ISLNK m = (m AND S_IFMT = S_IFLNK)"

text \<open>\<open>is_non_file\<close> (lines 617 to 621).\<close>

definition is_non_file :: "mode_t \<Rightarrow> bool" where
  "is_non_file mode = (mode \<noteq> 0 \<and> \<not> S_ISDIR mode \<and> \<not> S_ISREG mode \<and> \<not> S_ISLNK mode)"

text \<open>\<open>is_anonymous_file\<close> (lines 623 to 628): \<open>strncmp\<close> over seven characters.\<close>

definition is_anonymous_file :: "string \<Rightarrow> bool" where
  "is_anonymous_file pth = (take 7 pth = ''/memfd:'')"

text \<open>
  What one call of \<open>create_access\<close> gets from outside the observer: the two attempts to
  take the cache mutex (the probe of \<open>IsCacheHit\<close> and the insertion), the process ids,
  \<open>IsEnabled\<close>, \<open>get_mode\<close> on a path (0 when \<open>stat\<close> fails) and the policy engine
  (\<open>IOHandler::CheckAccessAndBuildReport\<close>), which returns its decision and fills the
  report group.
\<close>

record access_env =
  lockProbe :: bool
  lockInsert :: bool
  getpid :: pid_t
  getppid :: pid_t
  IsEnabled :: "pid_t \<Rightarrow> bool"
  get_mode :: "string \<Rightarrow> mode_t"
  CheckAccessAndBuildReport :: "IOEvent \<Rightarrow> AccessCheckResult \<times> AccessReportGroup"

text \<open>
  \<open>create_access\<close> on an \<open>IOEvent\<close> (lines 514 to 553). The result is the decision, the
  report group (unchanged unless the policy engine filled it) and the observer.
\<close>

definition create_access ::
  "access_env \<Rightarrow> IOEvent \<Rightarrow> AccessReportGroup \<Rightarrow> bool \<Rightarrow> BxlObserver
     \<Rightarrow> AccessCheckResult \<times> AccessReportGroup \<times> BxlObserver" where
  "create_access env event reportGroup checkCache obs =
    (let eventType = ev_eventType event;
         (hit, obs1) =
           (if checkCache
            then IsCacheHit (lockProbe env) eventType (ev_srcPath event) (ev_dstPath event) obs
            else (False, obs))
     in
       if checkCache \<and> hit then (sNotChecked obs1, reportGroup, obs1)
       else if is_anonymous_file (ev_srcPath event)
               \<or> (length (ev_dstPath event) > 0 \<and> is_anonymous_file (ev_dstPath event))
       then (sNotChecked obs1, reportGroup, obs1)
       else
         (let p = (if ev_pid event = 0 then getpid env else ev_pid event) in
          if IsEnabled env p
          then
            (let (result, filled) = CheckAccessAndBuildReport env event;
                 accessShouldBeBlocked = (ShouldDenyAccess result \<and> failUnexpected obs1)
             in
               if \<not> accessShouldBeBlocked
               then (result, filled,
                     snd (CheckCache (lockInsert env) eventType (ev_srcPath event) True obs1))
               else (result, filled, obs1))
          else (sNotChecked obs1, reportGroup, obs1)))"

text \<open>
  \<open>create_access_internal\<close> (lines 479 to 505). A null \<open>secondPath\<close> is \<open>None\<close>.
\<close>

definition create_access_internal ::
  "access_env \<Rightarrow> es_event_type_t \<Rightarrow> string \<Rightarrow> string option \<Rightarrow> AccessReportGroup
     \<Rightarrow> mode_t \<Rightarrow> bool \<Rightarrow> pid_t \<Rightarrow> BxlObserver
     \<Rightarrow> AccessCheckResult \<times> AccessReportGroup \<times> BxlObserver" where
  "create_access_internal env eventType reportPath secondPath reportGroup mode checkCache
      associatedPid obs =
    (let secondPath' = (case secondPath of None \<Rightarrow> [] | Some s \<Rightarrow> s);
         (hit, obs1) =
           (if checkCache
            then IsCacheHit (lockProbe env) eventType reportPath secondPath' obs
            else (False, obs))
     in
       if checkCache \<and> hit then (sNotChecked obs1, reportGroup, obs1)
       else
         (let mode' = (if mode = 0 then get_mode env reportPath else mode) in
          if is_non_file mode' then (sNotChecked obs1, reportGroup, obs1)
          else
            (let execPath =
                   (if eventType = ES_EVENT_TYPE_NOTIFY_EXEC then reportPath
                    else progFullPath obs1);
                 event =
                   \<lparr>ev_pid = (if associatedPid = 0 then getpid env else associatedPid),
                    ev_cpid = 0, ev_ppid = getppid env, ev_eventType = eventType,
                    ev_srcPath = reportPath, ev_dstPath = secondPath',
                    ev_execPath = execPath, ev_mode = mode', ev_modified = False\<rparr>
             in create_access env event reportGroup False obs1)))"


subsection \<open>Ending the process, and what the process does to the outside\<close>

text \<open>
  \<open>_fatal\<close> and \<open>exit\<close> end the process; a step that is undefined in C++ (a read or
  write outside an array) is a value of the same type, so that no theorem holds of it
  by accident.
\<close>

datatype abort =
    Fatal_open_not_found
  | Fatal_size_exceeds_PIPE_BUF
  | Fatal_cannot_open_reports_path
  | Fatal_short_write
  | Fatal_message_truncated
  | Exit_called int
  | Undefined_behaviour

text \<open>
  The calls that leave the observer, in the order in which they are made: a write on a
  report pipe, \<open>prctl(PR_SET_PTRACER, PR_SET_PTRACER_ANY)\<close>, a run of
  \<open>/usr/bin/objdump -p\<close>, a \<open>real_readlink\<close> and a call of
  \<open>report_access_internal\<close> with event kind and path.
\<close>

datatype action =
    Write_pipe string string
  | Prctl_set_ptracer
  | Run_objdump string
  | Readlink string
  | Report_access_internal es_event_type_t string

type_synonym 'a io = "action list \<times> (abort + 'a)"

definition io_return :: "'a \<Rightarrow> 'a io" where
  "io_return x = ([], Inr x)"

definition io_bind :: "'a io \<Rightarrow> ('a \<Rightarrow> 'b io) \<Rightarrow> 'b io" where
  "io_bind m f =
    (case m of
       (tr, Inl e) \<Rightarrow> (tr, Inl e)
     | (tr, Inr x) \<Rightarrow> (case f x of (tr', r) \<Rightarrow> (tr @ tr', r)))"

subsection \<open>Constants and C strings\<close>

definition PIPE_BUF :: nat where "PIPE_BUF = 4096"
definition PATH_MAX :: nat where "PATH_MAX = 4096"
definition MAXPATHLEN :: nat where "MAXPATHLEN = 4096"

definition NUL :: char where "NUL = CHR 0x00"

text \<open>The character at an index of a NUL-terminated string held as the list of the
  characters before the terminator: the terminator is at index \<open>length s\<close>.\<close>

definition char_at :: "string \<Rightarrow> nat \<Rightarrow> char" where
  "char_at s i = (if i < length s then s ! i else NUL)"

text \<open>The string that a zero-initialised buffer holds after some bytes were stored at
  its start.\<close>

definition c_str :: "string \<Rightarrow> string" where
  "c_str bytes = takeWhile (\<lambda>c. c \<noteq> NUL) bytes"

text \<open>\<open>%d\<close> of \<open>sprintf\<close> and \<open>std::to_string\<close>.\<close>

fun dec_nat :: "nat \<Rightarrow> string" where
  "dec_nat n =
    (if n < 10 then [char_of (48 + n)]
     else dec_nat (n div 10) @ [char_of (48 + n mod 10)])"

definition dec_int :: "int \<Rightarrow> string" where
  "dec_int i = (if i < 0 then CHR ''-'' # dec_nat (nat (- i)) else dec_nat (nat i))"

subsection \<open>The table of file descriptors\<close>

text \<open>
  \<open>read_path_for_fd\<close> (lines 921 to 935). \<open>real_readlink\<close> is \<open>None\<close> where the
  system call returns -1 and the bytes of the target otherwise, of which \<open>bufsiz\<close> are
  stored.
\<close>

definition read_path_for_fd ::
  "(string \<Rightarrow> string option) \<Rightarrow> int \<Rightarrow> nat \<Rightarrow> pid_t \<Rightarrow> string option" where
  "read_path_for_fd real_readlink fd bufsiz associatedPid =
    (let procPath =
           (if associatedPid = 0 then ''/proc/self/fd/'' @ dec_int fd
            else ''/proc/'' @ dec_int associatedPid @ ''/fd/'' @ dec_int fd)
     in map_option (take bufsiz) (real_readlink procPath))"

text \<open>
  \<open>char path[PATH_MAX] = {0}\<close> after \<open>read_path_for_fd\<close> wrote to it, read as a
  string (by \<open>return path\<close> and by the assignment to the table entry): empty when the
  call failed. \<open>readlink\<close> writes no terminator, so when the target fills all
  \<open>PATH_MAX\<close> bytes and none of them is NUL, reading the string runs past the array.
\<close>

definition path_buffer :: "string option \<Rightarrow> abort + string" where
  "path_buffer r =
    (case r of
       None \<Rightarrow> Inr []
     | Some bytes \<Rightarrow>
         if length bytes < PATH_MAX \<or> NUL \<in> set bytes then Inr (c_str bytes)
         else Inl Undefined_behaviour)"

text \<open>\<open>reset_fd_table_entry\<close> (lines 937 to 943).\<close>

definition reset_fd_table_entry :: "int \<Rightarrow> BxlObserver \<Rightarrow> BxlObserver" where
  "reset_fd_table_entry fd obs =
    (if fd \<ge> 0 \<and> fd < MAX_FD obs then obs\<lparr>fdTable := (fdTable obs)[nat fd := []]\<rparr> else obs)"

text \<open>\<open>fd_to_path\<close> (lines 953 to 985).\<close>

definition fd_to_path ::
  "(string \<Rightarrow> string option) \<Rightarrow> int \<Rightarrow> pid_t \<Rightarrow> BxlObserver
     \<Rightarrow> abort + string \<times> BxlObserver" where
  "fd_to_path real_readlink fd associatedPid obs =
    (if fd < 0 \<or> fd \<ge> MAX_FD obs
     then
       (case path_buffer (read_path_for_fd real_readlink fd PATH_MAX associatedPid) of
          Inl e \<Rightarrow> Inl e
        | Inr pth \<Rightarrow> Inr (pth, obs))
     else if useFdTable obs \<and> length (fdTable obs ! nat fd) > 0
     then Inr (fdTable obs ! nat fd, obs)
     else
       (let result = read_path_for_fd real_readlink fd PATH_MAX associatedPid in
        case path_buffer result of
          Inl e \<Rightarrow> Inl e
        | Inr pth \<Rightarrow>
            if result \<noteq> None \<and> useFdTable obs
            then Inr (pth, obs\<lparr>fdTable := (fdTable obs)[nat fd := pth]\<rparr>)
            else Inr (pth, obs)))"

subsection \<open>Sending a report\<close>

text \<open>
  What \<open>Send\<close> gets from outside: whether the symbol \<open>open\<close> was found, the two pipe
  paths, what \<open>real_open\<close> returns on a path and how many bytes \<open>real_write\<close> writes.
\<close>

record pipe_env =
  real_open_found :: bool
  GetReportsPath :: string
  GetSecondaryReportsPath :: string
  real_open :: "string \<Rightarrow> int"
  real_write :: "int \<Rightarrow> string \<Rightarrow> int"

text \<open>
  \<open>Send\<close> (lines 283 to 317). \<open>numWritten < bufsiz\<close> compares an \<open>ssize_t\<close> with a
  \<open>size_t\<close>, that is, after conversion of \<open>numWritten\<close> to 64 bits unsigned.
\<close>

definition Send ::
  "pipe_env \<Rightarrow> string \<Rightarrow> nat \<Rightarrow> bool \<Rightarrow> BxlObserver \<Rightarrow> (bool \<times> BxlObserver) io" where
  "Send env buf bufsiz useSecondaryPipe obs =
    (if \<not> real_open_found env then ([], Inl Fatal_open_not_found)
     else if bufsiz > PIPE_BUF then ([], Inl Fatal_size_exceeds_PIPE_BUF)
     else
       (let reportsPath =
              (if useSecondaryPipe then GetSecondaryReportsPath env else GetReportsPath env);
            logFd = real_open env reportsPath
        in if logFd = - 1 then ([], Inl Fatal_cannot_open_reports_path)
           else
             (let numWritten = real_write env logFd (take bufsiz buf) in
              if numWritten mod 2 ^ 64 < int bufsiz
              then ([Write_pipe reportsPath (take bufsiz buf)], Inl Fatal_short_write)
              else ([Write_pipe reportsPath (take bufsiz buf)],
                    Inr (True, reset_fd_table_entry logFd obs)))))"

text \<open>\<open>snprintf(buffer, n, ...)\<close> where the formatted text is \<open>txt\<close>: at most
  \<open>n - 1\<close> characters and a terminator are stored, the length of the whole text is
  returned.\<close>

definition snprintf :: "string \<Rightarrow> nat \<Rightarrow> string \<Rightarrow> string \<times> int" where
  "snprintf buffer n txt =
    (if n = 0 then (buffer, int (length txt))
     else
       (let stored = take (n - 1) txt @ [NUL]
        in (stored @ drop (length stored) buffer, int (length txt))))"

text \<open>
  Modelled from the spec: \<open>BuildReport\<close> is defined in bxl\_observer.hpp, which is not
  part of the sources at hand. The record is a delimited text with the fields of the
  report in a fixed order, the primary path among them, ended by a newline. The model
  keeps the text before the path and the text after it as two functions of the other
  fields of the report, and formats with \<open>snprintf\<close>, whose return value
  \<open>SendReport\<close> compares with the capacity.
\<close>

record report_format =
  fields_before :: "AccessReport \<Rightarrow> string"
  fields_after :: "AccessReport \<Rightarrow> string"

definition report_text :: "report_format \<Rightarrow> AccessReport \<Rightarrow> string \<Rightarrow> string" where
  "report_text fmt report pth =
    fields_before fmt (report\<lparr>path := []\<rparr>) @ pth @ fields_after fmt (report\<lparr>path := []\<rparr>)"

definition BuildReport ::
  "report_format \<Rightarrow> string \<Rightarrow> nat \<Rightarrow> AccessReport \<Rightarrow> string \<Rightarrow> string \<times> int" where
  "BuildReport fmt buffer maxMessageLength report pth =
    snprintf buffer maxMessageLength (report_text fmt report pth)"

text \<open>\<open>*(uint* )(buffer) = reportSize\<close> on a little-endian machine.\<close>

definition le32 :: "int \<Rightarrow> string" where
  "le32 n = map (\<lambda>i. char_of ((n mod 2 ^ 32) div 256 ^ i)) [0, 1, 2, 3]"

text \<open>
  \<open>SendReport\<close> on one report (lines 341 to 381). The array
  \<open>truncatedMessage[truncatedSize]\<close> and the \<open>strncpy\<close> of \<open>truncatedSize - 1\<close>
  characters into it are defined for a positive \<open>truncatedSize\<close> only.
\<close>

definition SendReport ::
  "pipe_env \<Rightarrow> report_format \<Rightarrow> AccessReport \<Rightarrow> bool \<Rightarrow> bool \<Rightarrow> BxlObserver
     \<Rightarrow> (bool \<times> BxlObserver) io" where
  "SendReport env fmt report isDebugMessage useSecondaryPipe obs =
    (if operation report = kOpProcessTreeCompleted then ([], Inr (True, obs))
     else
       (let PrefixLength = 4;
            buffer = replicate PIPE_BUF NUL;
            maxMessageLength = PIPE_BUF - PrefixLength;
            (message, reportSize) =
              BuildReport fmt (drop PrefixLength buffer) maxMessageLength report (path report)
        in
          if reportSize \<ge> int maxMessageLength
          then
            (if \<not> isDebugMessage then ([], Inl Fatal_message_truncated)
             else
               (let truncatedSize =
                      int (length (path report)) - (reportSize - int maxMessageLength) - 1
                in
                  if truncatedSize \<le> 0 then ([], Inl Undefined_behaviour)
                  else
                    (let truncatedMessage = take (nat (truncatedSize - 1)) (path report);
                         (message', reportSize') =
                           BuildReport fmt message maxMessageLength report truncatedMessage
                     in Send env (le32 reportSize' @ message')
                          (min (nat (reportSize' + int PrefixLength)) PIPE_BUF)
                          useSecondaryPipe obs)))
          else
            Send env (le32 reportSize @ message)
              (min (nat (reportSize + int PrefixLength)) PIPE_BUF) useSecondaryPipe obs))"

text \<open>
  \<open>SendReport\<close> on a group (lines 328 to 339): each report is sent only when it is marked
  \<open>shouldReport\<close>, as a report that is not a debug message, on the primary pipe (the
  defaults of the two last parameters).
\<close>

definition SendReport_group ::
  "pipe_env \<Rightarrow> report_format \<Rightarrow> AccessReportGroup \<Rightarrow> BxlObserver \<Rightarrow> (bool \<times> BxlObserver) io" where
  "SendReport_group env fmt report obs =
    io_bind
      (if shouldReport (firstReport report)
       then SendReport env fmt (firstReport report) False False obs
       else io_return (True, obs))
      (\<lambda>(result1, obs1).
         io_bind
           (if shouldReport (secondReport report)
            then SendReport env fmt (secondReport report) False False obs1
            else io_return (True, obs1))
           (\<lambda>(result2, obs2). io_return (result1 \<and> result2, obs2)))"

text \<open>Modelled from the spec: \<open>AccessReportGroup::SetErrno\<close> is declared in a header that
  is not part of the sources at hand; the error code of the system call is a field of
  each report of the group.\<close>

definition SetErrno :: "int \<Rightarrow> AccessReportGroup \<Rightarrow> AccessReportGroup" where
  "SetErrno e report =
    report\<lparr>firstReport := (firstReport report)\<lparr>error := e\<rparr>,
           secondReport := (secondReport report)\<lparr>error := e\<rparr>\<rparr>"

text \<open>
  \<open>report_access_internal\<close> (lines 460 to 466). \<open>fresh\<close> is the group as its default
  constructor leaves it.
\<close>

definition report_access_internal ::
  "access_env \<Rightarrow> pipe_env \<Rightarrow> report_format \<Rightarrow> AccessReportGroup \<Rightarrow> es_event_type_t
     \<Rightarrow> string \<Rightarrow> string option \<Rightarrow> mode_t \<Rightarrow> int \<Rightarrow> bool \<Rightarrow> pid_t \<Rightarrow> BxlObserver
     \<Rightarrow> (bool \<times> BxlObserver) io" where
  "report_access_internal env penv fmt fresh eventType reportPath secondPath mode err
      checkCache associatedPid obs =
    (let (result, report, obs1) =
           create_access_internal env eventType reportPath secondPath fresh mode checkCache
             associatedPid obs
     in SendReport_group penv fmt (SetErrno err report) obs1)"

subsection \<open>Statically linked and force-traced processes\<close>

text \<open>The last component of a path: \<open>basename\<close> on a path that does not end in a
  slash.\<close>

definition basename :: "string \<Rightarrow> string" where
  "basename pth = rev (takeWhile (\<lambda>c. c \<noteq> CHR ''/'') (rev pth))"

text \<open>\<open>IsPTraceForced\<close> (lines 737 to 747).\<close>

definition IsPTraceForced :: "string \<Rightarrow> BxlObserver \<Rightarrow> bool" where
  "IsPTraceForced pth obs =
    (if length (forcedPTraceProcessNames obs) = 0 then False
     else basename pth \<in> set (forcedPTraceProcessNames obs))"

text \<open>
  What the decision gets from outside: whether \<open>prctl\<close> succeeds, the process id, the
  seconds of the modification time that \<open>lstat\<close> leaves in \<open>statbuf\<close>, and everything
  that objdump prints for a path.
\<close>

record ptrace_env =
  prctl_succeeds :: bool
  ptrace_getpid :: pid_t
  lstat_mtime_sec :: "string \<Rightarrow> int"
  objdump_output :: "string \<Rightarrow> string"

text \<open>\<open>set_ptrace_permissions\<close> (lines 845 to 855).\<close>

definition set_ptrace_permissions :: "ptrace_env \<Rightarrow> unit io" where
  "set_ptrace_permissions env =
    (if \<not> prctl_succeeds env then ([Prctl_set_ptracer], Inl (Exit_called (- 1)))
     else ([Prctl_set_ptracer], Inr ()))"

text \<open>\<open>std::string::find(pattern) != npos\<close>.\<close>

fun str_find :: "string \<Rightarrow> string \<Rightarrow> bool" where
  "str_find [] pat = (pat = [])"
| "str_find (c # cs) pat = (take (length pat) (c # cs) = pat \<or> str_find cs pat)"

text \<open>\<open>is_statically_linked\<close> (lines 858 to 914): the child runs objdump, the parent
  collects its output and searches it.\<close>

definition is_statically_linked :: "ptrace_env \<Rightarrow> string \<Rightarrow> bool io" where
  "is_statically_linked env pth =
    (let result = objdump_output env pth in
     ([Run_objdump pth],
      Inr (str_find result ''Program Header:''
           \<and> \<not> str_find result ''NEEDED               libc.so.'')))"

text \<open>The report that both branches build (lines 763 to 779 and 821 to 837);
  \<open>strlcpy\<close> keeps \<open>sizeof(report.path) - 1\<close> characters.\<close>

definition statically_linked_report :: "ptrace_env \<Rightarrow> string \<Rightarrow> BxlObserver \<Rightarrow> AccessReport" where
  "statically_linked_report env pth obs =
    \<lparr>operation = kOpStaticallyLinkedProcess,
     pid = ptrace_getpid env,
     rootPid = pipProcessId obs,
     requestedAccess = RequestedAccess_Read,
     status = FileAccessStatus_Allowed,
     reportExplicitly = ReportLevel_Report,
     error = 0,
     pipId = pipPipId obs,
     path = take (MAXPATHLEN - 1) pth,
     isDirectory = False,
     shouldReport = True\<rparr>"

text \<open>\<open>check_and_report_statically_linked_process\<close> on a path (lines 749 to 843).\<close>

definition check_and_report_statically_linked_process ::
  "ptrace_env \<Rightarrow> pipe_env \<Rightarrow> report_format \<Rightarrow> string \<Rightarrow> BxlObserver
     \<Rightarrow> (bool \<times> BxlObserver) io" where
  "check_and_report_statically_linked_process env penv fmt pth obs =
    (if \<not> ptraceSandboxEnabled obs then io_return (False, obs)
     else if IsPTraceForced pth obs \<or> ptraceUnconditionallyEnabled obs
     then
       io_bind (set_ptrace_permissions env) (\<lambda>_.
       io_bind (SendReport penv fmt (statically_linked_report env pth obs) False True obs)
         (\<lambda>(sent, obs'). io_return (True, obs')))
     else
       (let key = dec_int (lstat_mtime_sec env pth) @ '':'' @ pth;
            maybeProcess = find (\<lambda>item. fst item = key) (staticallyLinkedProcessCache obs)
        in
          io_bind
            (case maybeProcess of
               Some item \<Rightarrow> io_return (snd item, obs)
             | None \<Rightarrow>
                 io_bind (is_statically_linked env pth) (\<lambda>linked.
                 io_return
                   (linked,
                    obs\<lparr>staticallyLinkedProcessCache :=
                          staticallyLinkedProcessCache obs @ [(key, linked)]\<rparr>)))
            (\<lambda>(isStaticallyLinked, obs1).
               if isStaticallyLinked
               then
                 io_bind (set_ptrace_permissions env) (\<lambda>_.
                 io_bind
                   (SendReport penv fmt (statically_linked_report env pth obs1) False True obs1)
                   (\<lambda>(sent, obs2). io_return (isStaticallyLinked, obs2)))
               else io_return (isStaticallyLinked, obs1))))"


subsection \<open>Resolving a path\<close>

text \<open>
  The buffer \<open>fullpath\<close> is held as the list of its characters before the terminator,
  and a pointer into it as an index. \<open>shift_left(str, n)\<close> (lines 1062 to 1068) copies
  the characters from \<open>str\<close> to the terminator \<open>n\<close> places to the left.
\<close>

definition shift_left :: "string \<Rightarrow> nat \<Rightarrow> nat \<Rightarrow> string" where
  "shift_left s str n = take (str - n) s @ drop str s"

text \<open>\<open>find_prev_slash\<close> (lines 1070 to 1074) steps down from \<open>pStr\<close>; stepping below the
  first character of the buffer is \<open>None\<close>.\<close>

fun find_prev_slash :: "string \<Rightarrow> nat \<Rightarrow> nat option" where
  "find_prev_slash s 0 = None"
| "find_prev_slash s (Suc i) =
     (if char_at s i = CHR ''/'' then Some i else find_prev_slash s i)"

record resolve_state =
  fullpath_buf :: string
  pFullpath :: nat
  visited :: "string set"
  trace :: "action list"

datatype 'a loop_step = Continue 'a | Break 'a | Stop abort

text \<open>
  The second half of the loop body (lines 1121 to 1170): the query for a symbolic link at
  a separator or at the end, and the splice of the target. \<open>real_readlink\<close> is \<open>None\<close>
  for -1 and the bytes of the target otherwise (a target has no NUL byte).
  \<open>readlinkBuf[nReadlinkBuf] = 0\<close>, \<open>readlinkBuf[nReadlinkBuf - 1]\<close> and the
  three \<open>strcpy\<close> are defined only inside the arrays of \<open>PATH_MAX\<close> characters.
\<close>

definition resolve_symlink ::
  "(string \<Rightarrow> string option) \<Rightarrow> bool \<Rightarrow> resolve_state \<Rightarrow> resolve_state loop_step" where
  "resolve_symlink real_readlink followFinalSymlink st =
    (let s = fullpath_buf st;
         p = pFullpath st;
         ch = char_at s p;
         query = (ch = CHR ''/'' \<or> (ch = NUL \<and> followFinalSymlink));
         nReadlinkBuf =
           (if query then map_option (take PATH_MAX) (real_readlink (take p s)) else None);
         st1 = (if query then st\<lparr>trace := trace st @ [Readlink (take p s)]\<rparr> else st)
     in
       case nReadlinkBuf of
         None \<Rightarrow> if ch = NUL then Break st1 else Continue (st1\<lparr>pFullpath := p + 1\<rparr>)
       | Some target \<Rightarrow>
           if length target = PATH_MAX then Stop Undefined_behaviour
           else if take p s \<in> visited st1 then Break (st1\<lparr>fullpath_buf := take p s\<rparr>)
           else
             (let st2 = st1\<lparr>visited := insert (take p s) (visited st1),
                            trace := trace st1 @
                              [Report_access_internal ES_EVENT_TYPE_NOTIFY_READLINK (take p s)]\<rparr>
              in
                if target = [] then Stop Undefined_behaviour
                else
                  (let rest =
                         (if last target = CHR ''/'' \<and> ch = CHR ''/''
                          then drop (p + 1) s else drop p s);
                       readlinkBuf = target @ rest
                   in
                     if length readlinkBuf \<ge> PATH_MAX then Stop Undefined_behaviour
                     else if hd readlinkBuf = CHR ''/''
                     then Continue (st2\<lparr>fullpath_buf := readlinkBuf, pFullpath := 1\<rparr>)
                     else
                       (case find_prev_slash s p of
                          None \<Rightarrow> Stop Undefined_behaviour
                        | Some q \<Rightarrow>
                            if q + 1 + length readlinkBuf \<ge> PATH_MAX
                            then Stop Undefined_behaviour
                            else Continue (st2\<lparr>fullpath_buf := take (q + 1) s @ readlinkBuf,
                                                pFullpath := q + 1\<rparr>)))))"

text \<open>One pass through the body of \<open>while (true)\<close> (lines 1089 to 1171): first the
  three cases of an empty, a \<open>.\<close> and a \<open>..\<close> component before a separator.\<close>

definition resolve_iteration ::
  "(string \<Rightarrow> string option) \<Rightarrow> bool \<Rightarrow> resolve_state \<Rightarrow> resolve_state loop_step" where
  "resolve_iteration real_readlink followFinalSymlink st =
    (let s = fullpath_buf st; p = pFullpath st in
     if char_at s p = CHR ''/''
     then
       (case find_prev_slash s p of
          None \<Rightarrow> Stop Undefined_behaviour
        | Some pPrevSlash \<Rightarrow>
            (let parentDirLen = p - pPrevSlash - 1 in
             if parentDirLen = 0
             then Continue (st\<lparr>fullpath_buf := shift_left s (p + 1) 1\<rparr>)
             else if parentDirLen = 1 \<and> char_at s (p - 1) = CHR ''.''
             then Continue (st\<lparr>fullpath_buf := shift_left s (p + 1) 2, pFullpath := p - 1\<rparr>)
             else if parentDirLen = 2 \<and> char_at s (p - 1) = CHR ''.''
                     \<and> char_at s (p - 2) = CHR ''.''
             then
               (case (if pPrevSlash > 0 then find_prev_slash s pPrevSlash
                      else Some pPrevSlash) of
                  None \<Rightarrow> Stop Undefined_behaviour
                | Some pPrevSlash' \<Rightarrow>
                    (let shiftLen = p - pPrevSlash' in
                     Continue (st\<lparr>fullpath_buf := shift_left s (p + 1) shiftLen,
                                  pFullpath := pPrevSlash' + 1\<rparr>)))
             else resolve_symlink real_readlink followFinalSymlink st))
     else resolve_symlink real_readlink followFinalSymlink st)"

text \<open>The loop itself. Nothing in the source bounds the number of passes, so the model
  counts them: \<open>None\<close> is a loop that has not ended after \<open>fuel\<close> passes.\<close>

fun resolve_loop ::
  "(string \<Rightarrow> string option) \<Rightarrow> bool \<Rightarrow> nat \<Rightarrow> resolve_state
     \<Rightarrow> (abort + resolve_state) option" where
  "resolve_loop real_readlink followFinalSymlink 0 st = None"
| "resolve_loop real_readlink followFinalSymlink (Suc fuel) st =
     (case resolve_iteration real_readlink followFinalSymlink st of
        Continue st' \<Rightarrow> resolve_loop real_readlink followFinalSymlink fuel st'
      | Break st' \<Rightarrow> Some (Inr st')
      | Stop e \<Rightarrow> Some (Inl e))"

text \<open>
  \<open>resolve_path\<close> (lines 1077 to 1172). A null pointer is \<open>None\<close>. The result is the
  buffer as the function leaves it and the calls it made.
\<close>

definition resolve_path ::
  "(string \<Rightarrow> string option) \<Rightarrow> bool \<Rightarrow> nat \<Rightarrow> string option
     \<Rightarrow> (abort + string option \<times> action list) option" where
  "resolve_path real_readlink followFinalSymlink fuel fullpath =
    (case fullpath of
       None \<Rightarrow> Some (Inr (None, []))
     | Some s \<Rightarrow>
         if char_at s 0 \<noteq> CHR ''/'' then Some (Inr (Some s, []))
         else
           map_option (map_sum id (\<lambda>st. (Some (fullpath_buf st), trace st)))
             (resolve_loop real_readlink followFinalSymlink fuel
                \<lparr>fullpath_buf = s, pFullpath = 1, visited = {}, trace = []\<rparr>))"

subsection \<open>Enumerating a directory\<close>

datatype d_type_t = DT_DIR | DT_REG | DT_LNK | DT_UNKNOWN

record dirent =
  d_name :: string
  d_type :: d_type_t

text \<open>
  The inner loop over \<open>real_readdir\<close> (lines 1233 to 1251), on the entries that the
  directory stream yields. The stack has its top at the head of the list.
\<close>

fun readdir_loop ::
  "string \<Rightarrow> bool \<Rightarrow> dirent list \<Rightarrow> string list \<Rightarrow> string list \<Rightarrow> string list \<times> string list" where
  "readdir_loop currentDirectory recursive [] directoriesToEnumerate filesAndDirectories =
     (directoriesToEnumerate, filesAndDirectories)"
| "readdir_loop currentDirectory recursive (ent # ents) directoriesToEnumerate
       filesAndDirectories =
     (if d_name ent = ''.'' \<or> d_name ent = ''..''
      then readdir_loop currentDirectory recursive ents directoriesToEnumerate
             filesAndDirectories
      else
        (let fullPath = currentDirectory @ ''/'' @ d_name ent in
         readdir_loop currentDirectory recursive ents
           (if d_type ent = DT_DIR \<and> recursive then fullPath # directoriesToEnumerate
            else directoriesToEnumerate)
           (filesAndDirectories @ [fullPath])))"

text \<open>
  The outer loop (lines 1224 to 1261). \<open>real_opendir\<close> is \<open>None\<close> for a null stream and
  the entries of the directory otherwise. The passes are counted as in \<open>resolve_loop\<close>.
\<close>

fun enumerate_loop ::
  "(string \<Rightarrow> dirent list option) \<Rightarrow> bool \<Rightarrow> nat \<Rightarrow> string list \<Rightarrow> string list
     \<Rightarrow> (bool \<times> string list) option" where
  "enumerate_loop real_opendir recursive fuel [] filesAndDirectories =
     Some (True, filesAndDirectories)"
| "enumerate_loop real_opendir recursive 0 (currentDirectory # stack) filesAndDirectories =
     None"
| "enumerate_loop real_opendir recursive (Suc fuel) (currentDirectory # stack)
       filesAndDirectories =
     (case real_opendir currentDirectory of
        None \<Rightarrow> Some (False, filesAndDirectories)
      | Some ents \<Rightarrow>
          (let (stack', files') =
                 readdir_loop currentDirectory recursive ents stack filesAndDirectories
           in enumerate_loop real_opendir recursive fuel stack' files'))"

text \<open>\<open>EnumerateDirectory\<close> (lines 1214 to 1264): the result and the vector
  \<open>filesAndDirectories\<close> as it is left.\<close>

definition EnumerateDirectory ::
  "(string \<Rightarrow> dirent list option) \<Rightarrow> nat \<Rightarrow> string \<Rightarrow> bool \<Rightarrow> (bool \<times> string list) option" where
  "EnumerateDirectory real_opendir fuel rootDirectory recursive =
    enumerate_loop real_opendir recursive fuel [rootDirectory] [rootDirectory]"


text \<open>
  The stack and the vector after \<open>k\<close> passes of the outer loop in each of which the
  directory on top of the stack could be opened (lines 1226 to 1253); \<open>None\<close> when the
  stack ran empty or an \<open>opendir\<close> failed before.
\<close>

fun enumerate_passes ::
  "(string \<Rightarrow> dirent list option) \<Rightarrow> bool \<Rightarrow> nat \<Rightarrow> string list \<times> string list
     \<Rightarrow> (string list \<times> string list) option" where
  "enumerate_passes real_opendir recursive 0 state = Some state"
| "enumerate_passes real_opendir recursive (Suc k) ([], filesAndDirectories) = None"
| "enumerate_passes real_opendir recursive (Suc k) (currentDirectory # stack, filesAndDirectories) =
     (case real_opendir currentDirectory of
        None \<Rightarrow> None
      | Some ents \<Rightarrow>
          enumerate_passes real_opendir recursive k
            (readdir_loop currentDirectory recursive ents stack filesAndDirectories))"

subsection \<open>The observer after construction\<close>

text \<open>The loop of the constructor that splits the value of the forced process names at
  semicolons (lines 57 to 70); \<open>cur\<close> is the text between \<open>start\<close> and \<open>end\<close>.\<close>

fun split_names :: "string \<Rightarrow> string \<Rightarrow> string list" where
  "split_names cur [] = [cur]"
| "split_names cur (c # cs) =
     (if c = CHR '';'' then cur # split_names [] cs else split_names (cur @ [c]) cs)"

text \<open>
  The members as the constructor (lines 24 to 83) leaves them: the containers empty, the
  table of \<open>max_fd\<close> empty strings in use, the names split from the environment value
  (\<open>None\<close> when the variable is not set). The path of the program, what the manifest
  says and \<open>AccessCheckResult::Invalid()\<close> are arguments.
\<close>

definition new_BxlObserver ::
  "string \<Rightarrow> string option \<Rightarrow> nat \<Rightarrow> bool \<Rightarrow> bool \<Rightarrow> bool \<Rightarrow> pid_t \<Rightarrow> int
     \<Rightarrow> AccessCheckResult \<Rightarrow> BxlObserver" where
  "new_BxlObserver progPath forcedprocesses max_fd ptrace unconditional failing rootpid pip
      invalid =
    \<lparr>disposed = False,
     cache = Map.empty,
     useFdTable = True,
     fdTable = replicate max_fd [],
     forcedPTraceProcessNames =
       (case forcedprocesses of
          None \<Rightarrow> []
        | Some v \<Rightarrow> if v = [] then [] else split_names [] v),
     staticallyLinkedProcessCache = [],
     progFullPath = progPath,
     sNotChecked = invalid,
     ptraceSandboxEnabled = ptrace,
     ptraceUnconditionallyEnabled = unconditional,
     failUnexpected = failing,
     pipProcessId = rootpid,
     pipPipId = pip\<rparr>"


subsection \<open>Auxiliary notions for the statements\<close>

text \<open>The bytes that \<open>SendReport\<close> hands to \<open>Send\<close> for a report that fits: the length
  prefix and the record.\<close>

definition wire :: "report_format \<Rightarrow> AccessReport \<Rightarrow> string" where
  "wire fmt report =
     le32 (int (length (report_text fmt report (path report))))
       @ report_text fmt report (path report)"

text \<open>The sequence that both branches of
  \<open>check_and_report_statically_linked_process\<close> run once tracing is decided: the
  permission, then the report on the secondary pipe.\<close>

definition grant_and_report ::
  "ptrace_env \<Rightarrow> pipe_env \<Rightarrow> report_format \<Rightarrow> string \<Rightarrow> bool \<Rightarrow> BxlObserver
     \<Rightarrow> (bool \<times> BxlObserver) io" where
  "grant_and_report env penv fmt pth b obs =
     io_bind (set_ptrace_permissions env) (\<lambda>_.
       io_bind (SendReport penv fmt (statically_linked_report env pth obs) False True obs)
         (\<lambda>(sent, obs'). io_return (b, obs')))"

subsection \<open>Concrete surroundings for the examples\<close>

text \<open>A record format of the shape described above, a pipe that opens and takes every
  write whole, a process that may set its tracer, an observer constructed with two forced
  process names, and a small directory tree in which \<open>/r/d2\<close> cannot be opened.\<close>

definition sample_format :: report_format where
  "sample_format =
     \<lparr>fields_before =
        (\<lambda>r. dec_int (pid r) @ ''|'' @ dec_int (rootPid r) @ ''|'' @ dec_int (error r) @ ''|''
              @ dec_int (pipId r) @ ''|''),
      fields_after = (\<lambda>r. ''|'' @ (if isDirectory r then ''1'' else ''0'') @ [CHR 0x0A])\<rparr>"

definition accepting_pipe :: pipe_env where
  "accepting_pipe =
     \<lparr>real_open_found = True,
      GetReportsPath = ''/tmp/bxl.fifo'',
      GetSecondaryReportsPath = ''/tmp/bxl.fifo2'',
      real_open = (\<lambda>_. 3),
      real_write = (\<lambda>fd bytes. int (length bytes))\<rparr>"

definition willing_process :: ptrace_env where
  "willing_process =
     \<lparr>prctl_succeeds = True,
      ptrace_getpid = 100,
      lstat_mtime_sec = (\<lambda>_. 0),
      objdump_output = (\<lambda>_. [])\<rparr>"

definition sample_observer :: BxlObserver where
  "sample_observer =
     new_BxlObserver ''/usr/bin/make'' (Some ''gcc;ld'') 8 True False False 1 7
       (AccessCheckResult RequestedAccess_None ResultAction_Deny ReportLevel_Ignore)"

definition sample_access_env :: access_env where
  "sample_access_env =
     \<lparr>lockProbe = True,
      lockInsert = True,
      getpid = 100,
      getppid = 1,
      IsEnabled = (\<lambda>_. True),
      get_mode = (\<lambda>_. 0),
      CheckAccessAndBuildReport =
        (\<lambda>ev. (AccessCheckResult RequestedAccess_Read ResultAction_Allow ReportLevel_Report,
               \<lparr>firstReport =
                  \<lparr>operation = kOpOther 0, pid = ev_pid ev, rootPid = 1,
                   requestedAccess = RequestedAccess_Read, status = FileAccessStatus_Allowed,
                   reportExplicitly = ReportLevel_Report, error = 0, pipId = 7,
                   path = ev_srcPath ev, isDirectory = False, shouldReport = True\<rparr>,
                secondReport =
                  \<lparr>operation = kOpOther 0, pid = ev_pid ev, rootPid = 1,
                   requestedAccess = RequestedAccess_Read, status = FileAccessStatus_Allowed,
                   reportExplicitly = ReportLevel_Report, error = 0, pipId = 7,
                   path = [], isDirectory = False, shouldReport = False\<rparr>\<rparr>))\<rparr>"

definition empty_group :: AccessReportGroup where
  "empty_group =
     \<lparr>firstReport =
        \<lparr>operation = kOpOther 0, pid = 0, rootPid = 0, requestedAccess = RequestedAccess_None,
         status = FileAccessStatus_Allowed, reportExplicitly = ReportLevel_Ignore, error = 0,
         pipId = 0, path = [], isDirectory = False, shouldReport = False\<rparr>,
      secondReport =
        \<lparr>operation = kOpOther 0, pid = 0, rootPid = 0, requestedAccess = RequestedAccess_None,
         status = FileAccessStatus_Allowed, reportExplicitly = ReportLevel_Ignore, error = 0,
         pipId = 0, path = [], isDirectory = False, shouldReport = False\<rparr>\<rparr>"

definition long_report :: "FileOperation \<Rightarrow> AccessReport" where
  "long_report op =
     \<lparr>operation = op, pid = 100, rootPid = 1, requestedAccess = RequestedAccess_Read,
      status = FileAccessStatus_Allowed, reportExplicitly = ReportLevel_Ignore, error = 0,
      pipId = 7, path = replicate 4095 (CHR ''a''), isDirectory = False, shouldReport = True\<rparr>"

definition sample_tree :: "string \<Rightarrow> dirent list option" where
  "sample_tree =
     [''/r'' \<mapsto> [\<lparr>d_name = ''d1'', d_type = DT_DIR\<rparr>, \<lparr>d_name = ''d2'', d_type = DT_DIR\<rparr>],
      ''/r/d1'' \<mapsto> [\<lparr>d_name = ''f'', d_type = DT_REG\<rparr>]]"


text \<open>Surroundings in which something fails: a process that may not set its tracer, a
  pipe that cannot be opened, a pipe that takes no byte, a process in which \<open>open\<close> was
  not found, a record format whose fields before the path fill the pipe, an executable
  with a long path and the basename \<open>ld\<close>, an observer that is not enabled and a policy
  that asks for no report.\<close>

definition unwilling_process :: ptrace_env where
  "unwilling_process = willing_process\<lparr>prctl_succeeds := False\<rparr>"

definition closed_pipe :: pipe_env where
  "closed_pipe = accepting_pipe\<lparr>real_open := (\<lambda>_. - 1)\<rparr>"

definition short_pipe :: pipe_env where
  "short_pipe = accepting_pipe\<lparr>real_write := (\<lambda>fd bytes. 0)\<rparr>"

definition no_open_pipe :: pipe_env where
  "no_open_pipe = accepting_pipe\<lparr>real_open_found := False\<rparr>"

definition wide_format :: report_format where
  "wide_format =
     \<lparr>fields_before = (\<lambda>r. replicate 4091 (CHR ''p'')), fields_after = (\<lambda>r. [])\<rparr>"

definition long_exe :: string where
  "long_exe = ''/'' @ replicate 4088 (CHR ''a'') @ ''/ld''"

definition disabled_env :: access_env where
  "disabled_env = sample_access_env\<lparr>IsEnabled := (\<lambda>_. False)\<rparr>"

definition silent_policy_env :: access_env where
  "silent_policy_env =
     sample_access_env\<lparr>CheckAccessAndBuildReport :=
       (\<lambda>ev. (AccessCheckResult RequestedAccess_Read ResultAction_Allow ReportLevel_Ignore,
              empty_group))\<rparr>"

definition observer_with_entry :: BxlObserver where
  "observer_with_entry =
     sample_observer\<lparr>cache := [ES_EVENT_TYPE_NOTIFY_STAT \<mapsto> {''/tmp/gone''}]\<rparr>"

declare dec_nat.simps [simp del]

section \<open>Properties\<close>

subsection \<open>The duplicate cache\<close>

lemma coalesce_write_variants:
  "e \<in> write_variants \<Longrightarrow> coalesce e = ES_EVENT_TYPE_NOTIFY_WRITE"
  by (auto simp: write_variants_def)

lemma coalesce_stat_variants: "e \<in> stat_variants \<Longrightarrow> coalesce e = e"
  by (auto simp: stat_variants_def default_label_def)

text \<open>Two kinds of the write group do share an entry: with the mutex taken both times,
  the second probe of the same path is a hit.\<close>

lemma CheckCache_write_variants_miss_then_hit:
  assumes "e1 \<in> write_variants" "e2 \<in> write_variants"
  shows "fst (CheckCache True e2 p True (snd (CheckCache True e1 p True obs))) = True"
  using assms
  by (auto simp: CheckCache_def Let_def coalesce_write_variants split: option.splits)

lemma CheckCache_first_probe_miss:
  assumes "\<forall>ps. cache obs (coalesce e) = Some ps \<longrightarrow> p \<notin> ps"
  shows "fst (CheckCache l e p True obs) = False"
  using assms by (auto simp: CheckCache_def Let_def split: option.splits)

text \<open>
  Claim C1. Two probes of the duplicate cache with the same path and two kinds of one
  bucket are a miss and then a hit, also for two kinds of the stat group. The code does
  not do this for the stat group: on an empty cache, with the mutex taken both times, the
  probe of \<open>/p\<close> for \<open>ES_EVENT_TYPE_NOTIFY_GETATTRLIST\<close> is a miss and the following
  probe of \<open>/p\<close> for \<open>ES_EVENT_TYPE_NOTIFY_STAT\<close> is a miss again, because the
  assignment of \<open>ES_EVENT_TYPE_NOTIFY_STAT\<close> is overwritten by the \<open>default\<close> label.
\<close>

theorem CheckCache_stat_variants_second_probe_misses:
  "fst (CheckCache True ES_EVENT_TYPE_NOTIFY_GETATTRLIST ''/p'' True
          (obs\<lparr>cache := Map.empty\<rparr>)) = False
   \<and> fst (CheckCache True ES_EVENT_TYPE_NOTIFY_STAT ''/p'' True
          (snd (CheckCache True ES_EVENT_TYPE_NOTIFY_GETATTRLIST ''/p'' True
                  (obs\<lparr>cache := Map.empty\<rparr>)))) = False"
  by (simp add: CheckCache_def default_label_def)

text \<open>After disposal the lookup is inert.\<close>

lemma IsCacheHit_disposed: "disposed obs \<Longrightarrow> IsCacheHit l e p q obs = (False, obs)"
  by (simp add: IsCacheHit_def)

lemma IsCacheHit_keeps_observer: "snd (IsCacheHit l e p q obs) = obs"
  by (simp add: IsCacheHit_def CheckCache_def Let_def split: option.splits)

text \<open>
  Claim C2. After the observer is disposed every cache operation is a no-op, on every
  path that reaches the cache, \<open>create_access\<close> included. The code does not do this:
  \<open>create_access\<close> on a disposed observer with an empty cache, an enabled process, an
  allowing policy and the mutex taken inserts the path \<open>/p\<close> under
  \<open>ES_EVENT_TYPE_NOTIFY_WRITE\<close>, whatever \<open>checkCache\<close> is.
\<close>

theorem create_access_inserts_when_disposed:
  "cache
     (snd (snd (create_access
        (env\<lparr>lockInsert := True, IsEnabled := (\<lambda>_. True),
             CheckAccessAndBuildReport :=
               (\<lambda>_. (AccessCheckResult RequestedAccess_Write ResultAction_Allow
                        ReportLevel_Report, reportGroup))\<rparr>)
        (event\<lparr>ev_eventType := ES_EVENT_TYPE_NOTIFY_WRITE, ev_srcPath := ''/p'',
               ev_dstPath := []\<rparr>)
        reportGroup checkCache
        (obs\<lparr>disposed := True, cache := Map.empty\<rparr>))))
     ES_EVENT_TYPE_NOTIFY_WRITE = Some {''/p''}
   \<and> cache (obs\<lparr>disposed := True, cache := Map.empty\<rparr>) ES_EVENT_TYPE_NOTIFY_WRITE = None"
  by (simp add: create_access_def IsCacheHit_def is_anonymous_file_def CheckCache_def Let_def)

subsection \<open>An access whose mode is unknown\<close>

lemma is_non_file_zero: "\<not> is_non_file 0"
  by (simp add: is_non_file_def)

subsection \<open>The table of file descriptors\<close>

lemma dec_int_9: "dec_int 9 = ''9''"
  by code_simp

lemma dec_int_3: "dec_int 3 = ''3''"
  by code_simp

lemma dec_int_42: "dec_int 42 = ''42''"
  by code_simp

text \<open>
  Claim C8. For a descriptor outside the range of the table, \<open>fd_to_path\<close> returns what
  \<open>readlink\<close> gives at that moment for the entry of the descriptor in the proc file
  system (the empty path when it fails, the target when it is shorter than
  \<open>PATH_MAX\<close>), whatever the table holds, and whenever it returns it leaves the
  observer as it is. And when
  that \<open>readlink\<close> fails, \<open>fd_to_path\<close> leaves the observer, hence the table entry,
  as it is and returns the empty path (an entry that is already in a table in use is
  returned without any \<open>readlink\<close>).
\<close>

theorem fd_to_path_fresh_or_failed:
  "(fd < 0 \<or> MAX_FD obs \<le> fd \<longrightarrow>
      (real_readlink
          (if associatedPid = 0 then ''/proc/self/fd/'' @ dec_int fd
           else ''/proc/'' @ dec_int associatedPid @ ''/fd/'' @ dec_int fd) = None
         \<longrightarrow> fd_to_path real_readlink fd associatedPid obs = Inr ([], obs))
      \<and> (\<forall>target.
            real_readlink
              (if associatedPid = 0 then ''/proc/self/fd/'' @ dec_int fd
               else ''/proc/'' @ dec_int associatedPid @ ''/fd/'' @ dec_int fd) = Some target
            \<and> length target < PATH_MAX \<and> NUL \<notin> set target
           \<longrightarrow> fd_to_path real_readlink fd associatedPid obs = Inr (target, obs))
      \<and> (\<forall>pth obs'. fd_to_path real_readlink fd associatedPid obs = Inr (pth, obs')
           \<longrightarrow> obs' = obs)
      \<and> (\<forall>tbl. length tbl = length (fdTable obs) \<longrightarrow>
            map_sum id fst (fd_to_path real_readlink fd associatedPid (obs\<lparr>fdTable := tbl\<rparr>))
              = map_sum id fst (fd_to_path real_readlink fd associatedPid obs)))
   \<and> (real_readlink
          (if associatedPid = 0 then ''/proc/self/fd/'' @ dec_int fd
           else ''/proc/'' @ dec_int associatedPid @ ''/fd/'' @ dec_int fd) = None \<longrightarrow>
        (\<exists>pth. fd_to_path real_readlink fd associatedPid obs = Inr (pth, obs))
        \<and> (\<not> (0 \<le> fd \<and> fd < MAX_FD obs \<and> useFdTable obs \<and> fdTable obs ! nat fd \<noteq> []) \<longrightarrow>
             fd_to_path real_readlink fd associatedPid obs = Inr ([], obs)))"
proof -
  let ?P = "if associatedPid = 0 then ''/proc/self/fd/'' @ dec_int fd
            else ''/proc/'' @ dec_int associatedPid @ ''/fd/'' @ dec_int fd"
  have r: "read_path_for_fd real_readlink fd PATH_MAX associatedPid
             = map_option (take PATH_MAX) (real_readlink ?P)"
    by (simp add: read_path_for_fd_def Let_def)
  have cs: "c_str target = target" if "NUL \<notin> set target" for target
    using that by (auto simp: c_str_def takeWhile_eq_all_conv)
  show ?thesis
    unfolding fd_to_path_def r
    by (auto simp: path_buffer_def Let_def MAX_FD_def cs split: sum.splits)
qed

theorem fd_to_path_fresh_or_failed_witness:
  "((9::int) < 0 \<or> MAX_FD sample_observer \<le> 9)
   \<and> fd_to_path [''/proc/self/fd/9'' \<mapsto> ''/tmp/out.txt''] 9 0 sample_observer
        = Inr (''/tmp/out.txt'', sample_observer)
   \<and> fd_to_path [''/proc/42/fd/9'' \<mapsto> ''/tmp/out.txt''] 9 42 sample_observer
        = Inr (''/tmp/out.txt'', sample_observer)
   \<and> fd_to_path Map.empty 9 0 sample_observer = Inr ([], sample_observer)
   \<and> \<not> (0 \<le> (3::int) \<and> 3 < MAX_FD sample_observer \<and> useFdTable sample_observer
          \<and> fdTable sample_observer ! nat 3 \<noteq> [])
   \<and> fd_to_path Map.empty 3 0 sample_observer = Inr ([], sample_observer)"
proof -
  have h1: "(9::int) < 0 \<or> MAX_FD sample_observer \<le> 9"
    by (simp add: MAX_FD_def sample_observer_def new_BxlObserver_def)
  have h3: "\<not> (0 \<le> (3::int) \<and> 3 < MAX_FD sample_observer \<and> useFdTable sample_observer
          \<and> fdTable sample_observer ! nat 3 \<noteq> [])"
    by (simp add: MAX_FD_def sample_observer_def new_BxlObserver_def)
  have t: "length ''/tmp/out.txt'' < PATH_MAX \<and> NUL \<notin> set ''/tmp/out.txt''"
    by (simp add: PATH_MAX_def NUL_def)
  have c1: "fd_to_path [''/proc/self/fd/9'' \<mapsto> ''/tmp/out.txt''] 9 0 sample_observer
        = Inr (''/tmp/out.txt'', sample_observer)"
    using fd_to_path_fresh_or_failed[of 9 sample_observer
        "[''/proc/self/fd/9'' \<mapsto> ''/tmp/out.txt'']" 0] h1 t
    by (simp add: dec_int_9)
  have c2: "fd_to_path [''/proc/42/fd/9'' \<mapsto> ''/tmp/out.txt''] 9 42 sample_observer
        = Inr (''/tmp/out.txt'', sample_observer)"
    using fd_to_path_fresh_or_failed[of 9 sample_observer
        "[''/proc/42/fd/9'' \<mapsto> ''/tmp/out.txt'']" 42] h1 t
    by (simp add: dec_int_9 dec_int_42)
  have c3: "fd_to_path Map.empty 9 0 sample_observer = Inr ([], sample_observer)"
    using fd_to_path_fresh_or_failed[of 9 sample_observer Map.empty 0] h1 by simp
  have c4: "fd_to_path Map.empty 3 0 sample_observer = Inr ([], sample_observer)"
    using fd_to_path_fresh_or_failed[of 3 sample_observer Map.empty 0] h3 by simp
  show ?thesis by (intro conjI h1 c1 c2 c3 h3 c4)
qed

text \<open>A target that fills the buffer leaves it without terminator.\<close>

lemma fd_to_path_unterminated:
  assumes "fd < 0 \<or> MAX_FD obs \<le> fd"
    and "read_path_for_fd real_readlink fd PATH_MAX associatedPid = Some bytes"
    and "length bytes = PATH_MAX" and "NUL \<notin> set bytes"
  shows "fd_to_path real_readlink fd associatedPid obs = Inl Undefined_behaviour"
  using assms by (auto simp: fd_to_path_def path_buffer_def)

subsection \<open>Sending a report\<close>

lemma length_le32: "length (le32 n) = 4"
  by (simp add: le32_def)

lemma Send_take: "Send env (take bufsiz buf) bufsiz sec obs = Send env buf bufsiz sec obs"
  by (simp add: Send_def Let_def)

lemma Send_accepted:
  assumes "real_open_found env" and "bufsiz \<le> PIPE_BUF"
    and "pipe = (if sec then GetSecondaryReportsPath env else GetReportsPath env)"
    and "real_open env pipe \<noteq> - 1"
    and "\<not> real_write env (real_open env pipe) (take bufsiz buf) mod 2 ^ 64 < int bufsiz"
  shows "Send env buf bufsiz sec obs =
           ([Write_pipe pipe (take bufsiz buf)],
            Inr (True, reset_fd_table_entry (real_open env pipe) obs))"
  using assms by (simp add: Send_def Let_def)

lemma Send_outcomes:
  "(\<exists>e. Send env buf n sec obs = ([], Inl e))
   \<or> Send env buf n sec obs =
        ([Write_pipe (if sec then GetSecondaryReportsPath env else GetReportsPath env) (take n buf)],
         Inl Fatal_short_write)
   \<or> Send env buf n sec obs =
        ([Write_pipe (if sec then GetSecondaryReportsPath env else GetReportsPath env) (take n buf)],
         Inr (True, reset_fd_table_entry
            (real_open env (if sec then GetSecondaryReportsPath env else GetReportsPath env)) obs))"
  by (simp add: Send_def Let_def)

lemma snprintf_size: "snd (snprintf buffer n txt) = int (length txt)"
  by (simp add: snprintf_def Let_def)

lemma snprintf_stored:
  assumes "length txt < n"
  shows "take (length txt) (fst (snprintf buffer n txt)) = txt"
  using assms by (simp add: snprintf_def Let_def)

lemma sent_bytes:
  assumes "length txt < n"
  shows "take (length txt + 4) (le32 k @ fst (snprintf buffer n txt)) = le32 k @ txt"
  using assms by (simp add: length_le32 snprintf_stored)

lemma report_text_length:
  "length (report_text fmt report pth) =
     length (fields_before fmt (report\<lparr>path := []\<rparr>)) + length pth
       + length (fields_after fmt (report\<lparr>path := []\<rparr>))"
  by (simp add: report_text_def)

text \<open>A report that fits is written whole, with its length in front.\<close>

lemma SendReport_fits:
  assumes "operation report \<noteq> kOpProcessTreeCompleted"
    and "length (report_text fmt report (path report)) < PIPE_BUF - 4"
  shows "SendReport env fmt report dbg sec obs =
           Send env (wire fmt report) (length (wire fmt report)) sec obs"
proof -
  let ?txt = "report_text fmt report (path report)"
  let ?buf = "drop 4 (replicate PIPE_BUF NUL)"
  have n: "length ?txt + 4 \<le> PIPE_BUF" using assms(2) by simp
  have "SendReport env fmt report dbg sec obs =
          Send env (le32 (int (length ?txt)) @ fst (snprintf ?buf (PIPE_BUF - 4) ?txt))
            (length ?txt + 4) sec obs"
    using assms n
    by (simp add: SendReport_def BuildReport_def Let_def split_beta snprintf_size
        nat_add_distrib min_absorb1)
  also have "\<dots> = Send env (take (length ?txt + 4)
                 (le32 (int (length ?txt)) @ fst (snprintf ?buf (PIPE_BUF - 4) ?txt)))
            (length ?txt + 4) sec obs"
    by (simp only: Send_take)
  also have "\<dots> = Send env (le32 (int (length ?txt)) @ ?txt) (length ?txt + 4) sec obs"
    using assms(2) by (simp only: sent_bytes)
  finally show ?thesis by (simp add: wire_def length_le32 add.commute)
qed

lemma SendReport_not_debug_over:
  assumes "operation report \<noteq> kOpProcessTreeCompleted"
    and "length (report_text fmt report (path report)) \<ge> PIPE_BUF - 4"
  shows "SendReport env fmt report False sec obs = ([], Inl Fatal_message_truncated)"
  using assms
  by (simp add: SendReport_def BuildReport_def Let_def split_beta snprintf_size)

lemma SendReport_debug_over:
  fixes fmt report
  defines "fixed \<equiv> length (fields_before fmt (report\<lparr>path := []\<rparr>))
                     + length (fields_after fmt (report\<lparr>path := []\<rparr>))"
  defines "kept \<equiv> take (PIPE_BUF - 6 - fixed) (path report)"
  assumes op: "operation report \<noteq> kOpProcessTreeCompleted"
    and over: "length (report_text fmt report (path report)) \<ge> PIPE_BUF - 4"
    and room: "fixed + 6 \<le> PIPE_BUF"
  shows "length kept = length (path report)
            - (length (report_text fmt report (path report)) - (PIPE_BUF - 4)) - 2"
    and "length (report_text fmt report kept) = PIPE_BUF - 6"
    and "SendReport env fmt report True sec obs =
           Send env (le32 (int (PIPE_BUF - 6)) @ report_text fmt report kept) (PIPE_BUF - 2) sec obs"
proof -
  let ?txt = "report_text fmt report (path report)"
  have len: "length ?txt = fixed + length (path report)"
    by (simp add: report_text_length fixed_def)
  have plen: "length (path report) \<ge> PIPE_BUF - 4 - fixed"
    using over len by simp
  show "length kept = length (path report) - (length ?txt - (PIPE_BUF - 4)) - 2"
    using plen room len over by (simp add: kept_def PIPE_BUF_def)
  have cl: "length kept = PIPE_BUF - 6 - fixed"
    using plen room by (simp add: kept_def PIPE_BUF_def)
  show tl: "length (report_text fmt report kept) = PIPE_BUF - 6"
    using cl room by (simp add: report_text_length fixed_def)
  have ts: "int (length (path report)) - (int (length ?txt) - int (PIPE_BUF - 4)) - 1
              = int (PIPE_BUF - 5 - fixed)"
    using len room by (simp add: PIPE_BUF_def)
  have pos: "\<not> int (PIPE_BUF - 5 - fixed) \<le> 0"
    using room by (simp add: PIPE_BUF_def)
  have kept2: "take (nat (int (PIPE_BUF - 5 - fixed) - 1)) (path report) = kept"
    using room by (simp add: kept_def PIPE_BUF_def nat_diff_distrib)
  let ?m = "fst (snprintf (drop 4 (replicate PIPE_BUF NUL)) (PIPE_BUF - 4) ?txt)"
  let ?m' = "fst (snprintf ?m (PIPE_BUF - 4) (report_text fmt report kept))"
  have "SendReport env fmt report True sec obs =
          Send env (le32 (int (PIPE_BUF - 6)) @ ?m') (PIPE_BUF - 2) sec obs"
    unfolding SendReport_def BuildReport_def Let_def split_beta snprintf_size ts kept2 tl
    using op over pos by (simp add: PIPE_BUF_def)
  also have "\<dots> = Send env (take (PIPE_BUF - 2) (le32 (int (PIPE_BUF - 6)) @ ?m'))
                       (PIPE_BUF - 2) sec obs"
    by (simp only: Send_take)
  also have "take (PIPE_BUF - 2) (le32 (int (PIPE_BUF - 6)) @ ?m')
               = le32 (int (PIPE_BUF - 6)) @ report_text fmt report kept"
  proof -
    have "length (report_text fmt report kept) < PIPE_BUF - 4"
      using tl by (simp add: PIPE_BUF_def)
    from sent_bytes[OF this, of "int (PIPE_BUF - 6)" ?m]
    show ?thesis using tl by (simp add: PIPE_BUF_def)
  qed
  finally show "SendReport env fmt report True sec obs =
      Send env (le32 (int (PIPE_BUF - 6)) @ report_text fmt report kept) (PIPE_BUF - 2) sec obs" .
qed

lemma sample_fixed:
  "length (fields_before sample_format (long_report op\<lparr>path := []\<rparr>)) = 10"
  "length (fields_after sample_format (long_report op\<lparr>path := []\<rparr>)) = 3"
  by (simp_all add: sample_format_def long_report_def dec_int_def dec_nat.simps)

lemma long_debug_report:
  "operation (long_report kOpDebugMessage) \<noteq> kOpProcessTreeCompleted"
  "PIPE_BUF - 4 \<le> length (report_text sample_format (long_report kOpDebugMessage)
                            (path (long_report kOpDebugMessage)))"
  "length (fields_before sample_format (long_report kOpDebugMessage\<lparr>path := []\<rparr>))
     + length (fields_after sample_format (long_report kOpDebugMessage\<lparr>path := []\<rparr>)) + 6
     \<le> PIPE_BUF"
    apply (simp add: long_report_def)
   apply (simp add: report_text_length sample_fixed)
   apply (simp add: long_report_def PIPE_BUF_def)
  apply (simp add: sample_fixed PIPE_BUF_def)
  done

text \<open>
  Claim C3, as stated: every report whose serialized size exceeds the capacity
  \<open>PIPE_BUF - 4\<close> makes \<open>SendReport\<close> abort unless it is a debug message, and a debug
  message is truncated and sent without aborting the process. This fails in four ways.
  A report with the operation \<open>kOpProcessTreeCompleted\<close>, here with a path of 4095
  characters and not a debug message, is neither serialized nor sent, and \<open>SendReport\<close>
  returns true. A debug message of that size aborts the process when the pipe cannot be
  opened, and when the write is short. And when the fields other than the path fill the
  capacity by themselves, the size of the array for the truncated message is not
  positive.
\<close>

theorem SendReport_tree_completed_returns:
  "PIPE_BUF - 4 < length (report_text sample_format (long_report kOpProcessTreeCompleted)
                           (path (long_report kOpProcessTreeCompleted)))
   \<and> SendReport accepting_pipe sample_format (long_report kOpProcessTreeCompleted) False False
        sample_observer = ([], Inr (True, sample_observer))
   \<and> SendReport closed_pipe sample_format (long_report kOpDebugMessage) True False
        sample_observer = ([], Inl Fatal_cannot_open_reports_path)
   \<and> snd (SendReport short_pipe sample_format (long_report kOpDebugMessage) True False
        sample_observer) = Inl Fatal_short_write
   \<and> SendReport accepting_pipe wide_format (long_report kOpDebugMessage) True False
        sample_observer = ([], Inl Undefined_behaviour)"
proof (intro conjI)
  show "PIPE_BUF - 4 < length (report_text sample_format (long_report kOpProcessTreeCompleted)
                           (path (long_report kOpProcessTreeCompleted)))"
    by (simp add: long_report_def report_text_def PIPE_BUF_def)
  show "SendReport accepting_pipe sample_format (long_report kOpProcessTreeCompleted) False False
        sample_observer = ([], Inr (True, sample_observer))"
    by (simp add: SendReport_def long_report_def)
  show "SendReport closed_pipe sample_format (long_report kOpDebugMessage) True False
        sample_observer = ([], Inl Fatal_cannot_open_reports_path)"
    unfolding SendReport_debug_over(3)[OF long_debug_report]
    by (simp add: Send_def closed_pipe_def accepting_pipe_def PIPE_BUF_def)
  show "snd (SendReport short_pipe sample_format (long_report kOpDebugMessage) True False
        sample_observer) = Inl Fatal_short_write"
    unfolding SendReport_debug_over(3)[OF long_debug_report]
    by (simp add: Send_def short_pipe_def accepting_pipe_def PIPE_BUF_def Let_def)
  show "SendReport accepting_pipe wide_format (long_report kOpDebugMessage) True False
        sample_observer = ([], Inl Undefined_behaviour)"
    by (simp add: SendReport_def BuildReport_def snprintf_size split_beta Let_def
        report_text_def wide_format_def long_report_def PIPE_BUF_def)
qed

text \<open>
  Claim C3, amended. For every report whose operation is not
  \<open>kOpProcessTreeCompleted\<close> and whose serialized size is at least the capacity
  \<open>PIPE_BUF - 4\<close>: if it is not a debug message, \<open>SendReport\<close> aborts the process; if
  it is a debug message whose fields other than the path leave room for a truncated
  path, \<open>SendReport\<close> builds the record again with a proper prefix of the path, the
  new record is shorter than the capacity, it is handed to \<open>Send\<close> with its length
  prefix in no more than \<open>PIPE_BUF\<close> bytes, and when \<open>open\<close> is found, the pipe opens
  and the write is not short these bytes are written and \<open>SendReport\<close> returns true.
\<close>

theorem SendReport_over_capacity:
  assumes "operation report \<noteq> kOpProcessTreeCompleted"
    and "PIPE_BUF - 4 \<le> length (report_text fmt report (path report))"
  shows "SendReport env fmt report False sec obs = ([], Inl Fatal_message_truncated)
    \<and> (length (fields_before fmt (report\<lparr>path := []\<rparr>))
          + length (fields_after fmt (report\<lparr>path := []\<rparr>)) + 6 \<le> PIPE_BUF \<longrightarrow>
        (\<exists>n. n < length (path report)
          \<and> (let record = report_text fmt report (take n (path report));
                  pipe = (if sec then GetSecondaryReportsPath env else GetReportsPath env);
                  bytes = le32 (int (length record)) @ record
              in length record < PIPE_BUF - 4
               \<and> length bytes \<le> PIPE_BUF
               \<and> SendReport env fmt report True sec obs = Send env bytes (length bytes) sec obs
               \<and> (real_open_found env \<and> real_open env pipe \<noteq> - 1
                    \<and> \<not> real_write env (real_open env pipe) bytes mod 2 ^ 64
                          < int (length bytes)
                   \<longrightarrow> SendReport env fmt report True sec obs =
                         ([Write_pipe pipe bytes],
                          Inr (True, reset_fd_table_entry (real_open env pipe) obs))))))"
proof (intro conjI impI)
  show "SendReport env fmt report False sec obs = ([], Inl Fatal_message_truncated)"
    by (rule SendReport_not_debug_over[OF assms])
next
  let ?fixed = "length (fields_before fmt (report\<lparr>path := []\<rparr>))
                  + length (fields_after fmt (report\<lparr>path := []\<rparr>))"
  let ?n = "PIPE_BUF - 6 - ?fixed"
  let ?rcd = "report_text fmt report (take ?n (path report))"
  let ?pipe = "if sec then GetSecondaryReportsPath env else GetReportsPath env"
  let ?bytes = "le32 (int (length ?rcd)) @ ?rcd"
  assume room: "?fixed + 6 \<le> PIPE_BUF"
  note d = SendReport_debug_over[OF assms room]
  have rl: "length ?rcd = PIPE_BUF - 6" by (rule d(2))
  have n: "?n < length (path report)"
    using assms(2) room by (simp add: report_text_length PIPE_BUF_def)
  have blen: "length ?bytes = PIPE_BUF - 2"
    using rl by (simp add: length_le32 PIPE_BUF_def)
  have fits: "length ?rcd < PIPE_BUF - 4" using rl by (simp add: PIPE_BUF_def)
  have le: "length ?bytes \<le> PIPE_BUF" using blen by simp
  have eq: "SendReport env fmt report True sec obs = Send env ?bytes (length ?bytes) sec obs"
    using d(3)[of env sec obs] rl blen by simp
  have sent: "SendReport env fmt report True sec obs =
                ([Write_pipe ?pipe ?bytes], Inr (True, reset_fd_table_entry (real_open env ?pipe) obs))"
    if "real_open_found env \<and> real_open env ?pipe \<noteq> - 1
         \<and> \<not> real_write env (real_open env ?pipe) ?bytes mod 2 ^ 64 < int (length ?bytes)"
  proof -
    have "Send env ?bytes (length ?bytes) sec obs =
            ([Write_pipe ?pipe (take (length ?bytes) ?bytes)],
             Inr (True, reset_fd_table_entry (real_open env ?pipe) obs))"
      using that le by (intro Send_accepted) simp_all
    then show ?thesis using eq by simp
  qed
  show "\<exists>n. n < length (path report)
          \<and> (let record = report_text fmt report (take n (path report));
                  pipe = (if sec then GetSecondaryReportsPath env else GetReportsPath env);
                  bytes = le32 (int (length record)) @ record
              in length record < PIPE_BUF - 4
               \<and> length bytes \<le> PIPE_BUF
               \<and> SendReport env fmt report True sec obs = Send env bytes (length bytes) sec obs
               \<and> (real_open_found env \<and> real_open env pipe \<noteq> - 1
                    \<and> \<not> real_write env (real_open env pipe) bytes mod 2 ^ 64
                          < int (length bytes)
                   \<longrightarrow> SendReport env fmt report True sec obs =
                         ([Write_pipe pipe bytes],
                          Inr (True, reset_fd_table_entry (real_open env pipe) obs))))"
    unfolding Let_def
    using n fits le eq sent by (intro exI[of _ ?n] conjI impI) assumption+
qed

theorem SendReport_over_capacity_witness:
  "operation (long_report kOpDebugMessage) \<noteq> kOpProcessTreeCompleted
   \<and> PIPE_BUF - 4 \<le> length (report_text sample_format (long_report kOpDebugMessage)
                            (path (long_report kOpDebugMessage)))
   \<and> SendReport accepting_pipe sample_format (long_report kOpDebugMessage) False False
        sample_observer = ([], Inl Fatal_message_truncated)
   \<and> length (fields_before sample_format (long_report kOpDebugMessage\<lparr>path := []\<rparr>))
        + length (fields_after sample_format (long_report kOpDebugMessage\<lparr>path := []\<rparr>)) + 6
        \<le> PIPE_BUF
   \<and> (\<exists>n. n < length (path (long_report kOpDebugMessage))
         \<and> length (report_text sample_format (long_report kOpDebugMessage)
                     (take n (path (long_report kOpDebugMessage)))) < PIPE_BUF - 4
         \<and> SendReport accepting_pipe sample_format (long_report kOpDebugMessage) True False
              sample_observer =
             ([Write_pipe ''/tmp/bxl.fifo''
                 (le32 (int (length (report_text sample_format (long_report kOpDebugMessage)
                                       (take n (path (long_report kOpDebugMessage))))))
                   @ report_text sample_format (long_report kOpDebugMessage)
                       (take n (path (long_report kOpDebugMessage))))],
              Inr (True, reset_fd_table_entry 3 sample_observer)))"
proof -
  let ?r = "long_report kOpDebugMessage"
  note h = long_debug_report
  note T = SendReport_over_capacity[OF h(1) h(2), of accepting_pipe False sample_observer]
  from T have c1: "SendReport accepting_pipe sample_format ?r False False sample_observer
                     = ([], Inl Fatal_message_truncated)"
    by (rule conjunct1)
  from conjunct2[OF T, THEN mp, OF h(3)]
  obtain n where n: "n < length (path ?r)"
    and L: "let record = report_text sample_format ?r (take n (path ?r));
                pipe = (if False then GetSecondaryReportsPath accepting_pipe
                        else GetReportsPath accepting_pipe);
                bytes = le32 (int (length record)) @ record
            in length record < PIPE_BUF - 4
               \<and> length bytes \<le> PIPE_BUF
               \<and> SendReport accepting_pipe sample_format ?r True False sample_observer
                   = Send accepting_pipe bytes (length bytes) False sample_observer
               \<and> (real_open_found accepting_pipe \<and> real_open accepting_pipe pipe \<noteq> - 1
                    \<and> \<not> real_write accepting_pipe (real_open accepting_pipe pipe) bytes mod 2 ^ 64
                          < int (length bytes)
                   \<longrightarrow> SendReport accepting_pipe sample_format ?r True False sample_observer =
                         ([Write_pipe pipe bytes],
                          Inr (True, reset_fd_table_entry (real_open accepting_pipe pipe)
                                       sample_observer)))"
    by blast
  let ?rcd = "report_text sample_format ?r (take n (path ?r))"
  let ?bytes = "le32 (int (length ?rcd)) @ ?rcd"
  from L have fits: "length ?rcd < PIPE_BUF - 4" and le: "length ?bytes \<le> PIPE_BUF"
    by (simp_all add: Let_def)
  have io: "real_open_found accepting_pipe
      \<and> real_open accepting_pipe (GetReportsPath accepting_pipe) \<noteq> - 1
      \<and> \<not> real_write accepting_pipe (real_open accepting_pipe (GetReportsPath accepting_pipe))
            ?bytes mod 2 ^ 64 < int (length ?bytes)"
    using le by (simp add: accepting_pipe_def PIPE_BUF_def)
  from L io have c3: "SendReport accepting_pipe sample_format ?r True False sample_observer =
       ([Write_pipe ''/tmp/bxl.fifo'' ?bytes], Inr (True, reset_fd_table_entry 3 sample_observer))"
    by (auto simp: Let_def accepting_pipe_def)
  from n fits c3 have ex: "\<exists>n. n < length (path ?r)
         \<and> length (report_text sample_format ?r (take n (path ?r))) < PIPE_BUF - 4
         \<and> SendReport accepting_pipe sample_format ?r True False sample_observer =
             ([Write_pipe ''/tmp/bxl.fifo''
                 (le32 (int (length (report_text sample_format ?r (take n (path ?r)))))
                   @ report_text sample_format ?r (take n (path ?r)))],
              Inr (True, reset_fd_table_entry 3 sample_observer))"
    by blast
  show ?thesis by (intro conjI h c1 ex)
qed

subsection \<open>Statically linked and force-traced processes\<close>

lemma operation_statically_linked_report_not_completed:
  "operation (statically_linked_report env pth obs) \<noteq> kOpProcessTreeCompleted"
  by (simp add: statically_linked_report_def)

lemma operation_statically_linked_report:
  "operation (statically_linked_report env pth obs) = kOpStaticallyLinkedProcess"
  by (simp add: statically_linked_report_def)

text \<open>What a report that is not a debug message can come to: an abort before anything is
  written, a short write, or the whole record on the pipe.\<close>

lemma SendReport_not_debug_outcomes:
  assumes "operation report \<noteq> kOpProcessTreeCompleted"
  shows "(\<exists>e. SendReport env fmt report False sec obs = ([], Inl e))
       \<or> SendReport env fmt report False sec obs =
            ([Write_pipe (if sec then GetSecondaryReportsPath env else GetReportsPath env)
                (wire fmt report)],
             Inl Fatal_short_write)
       \<or> SendReport env fmt report False sec obs =
            ([Write_pipe (if sec then GetSecondaryReportsPath env else GetReportsPath env)
                (wire fmt report)],
             Inr (True, reset_fd_table_entry
                (real_open env (if sec then GetSecondaryReportsPath env else GetReportsPath env))
                obs))"
proof (cases "length (report_text fmt report (path report)) < PIPE_BUF - 4")
  case True
  have eq: "SendReport env fmt report False sec obs =
              Send env (wire fmt report) (length (wire fmt report)) sec obs"
    by (rule SendReport_fits[OF assms True])
  show ?thesis
    unfolding eq
    using Send_outcomes[of env "wire fmt report" "length (wire fmt report)" sec obs]
    by simp
next
  case False
  then have "length (report_text fmt report (path report)) \<ge> PIPE_BUF - 4" by simp
  from SendReport_not_debug_over[OF assms this] show ?thesis by simp
qed

lemma grant_and_report_outcomes:
  "grant_and_report env penv fmt pth b obs = ([Prctl_set_ptracer], Inl (Exit_called (- 1)))
     \<and> \<not> prctl_succeeds env
   \<or> (\<exists>e. grant_and_report env penv fmt pth b obs = ([Prctl_set_ptracer], Inl e))
     \<and> prctl_succeeds env
   \<or> grant_and_report env penv fmt pth b obs =
        ([Prctl_set_ptracer,
          Write_pipe (GetSecondaryReportsPath penv)
            (wire fmt (statically_linked_report env pth obs))],
         Inl Fatal_short_write) \<and> prctl_succeeds env
   \<or> grant_and_report env penv fmt pth b obs =
        ([Prctl_set_ptracer,
          Write_pipe (GetSecondaryReportsPath penv)
            (wire fmt (statically_linked_report env pth obs))],
         Inr (b, reset_fd_table_entry (real_open penv (GetSecondaryReportsPath penv)) obs))
     \<and> prctl_succeeds env"
  using SendReport_not_debug_outcomes[of "statically_linked_report env pth obs" penv fmt True obs]
  by (auto simp: grant_and_report_def io_bind_def io_return_def set_ptrace_permissions_def
      operation_statically_linked_report)

lemma grant_and_report_trace:
  "fst (grant_and_report env penv fmt pth b obs) = [Prctl_set_ptracer]
   \<or> (prctl_succeeds env \<and>
       fst (grant_and_report env penv fmt pth b obs) =
         [Prctl_set_ptracer,
          Write_pipe (GetSecondaryReportsPath penv)
            (wire fmt (statically_linked_report env pth obs))])"
  using grant_and_report_outcomes[of env penv fmt pth b obs] by auto

text \<open>When the permission is granted, the report fits and the pipe takes it, both calls
  are made in this order and the decision is returned.\<close>

lemma grant_and_report_success:
  assumes ok: "prctl_succeeds env"
    and fits: "length (report_text fmt (statically_linked_report env pth obs)
                 (path (statically_linked_report env pth obs))) < PIPE_BUF - 4"
    and found: "real_open_found penv"
    and opened: "real_open penv (GetSecondaryReportsPath penv) \<noteq> - 1"
    and full: "\<not> real_write penv (real_open penv (GetSecondaryReportsPath penv))
                   (wire fmt (statically_linked_report env pth obs)) mod 2 ^ 64
                 < int (length (wire fmt (statically_linked_report env pth obs)))"
  shows "grant_and_report env penv fmt pth b obs =
           ([Prctl_set_ptracer,
             Write_pipe (GetSecondaryReportsPath penv)
               (wire fmt (statically_linked_report env pth obs))],
            Inr (b, reset_fd_table_entry (real_open penv (GetSecondaryReportsPath penv)) obs))"
proof -
  let ?r = "statically_linked_report env pth obs"
  have n: "length (wire fmt ?r) \<le> PIPE_BUF"
    using fits by (simp add: wire_def length_le32)
  have "SendReport penv fmt ?r False True obs =
          Send penv (wire fmt ?r) (length (wire fmt ?r)) True obs"
    by (rule SendReport_fits[OF _ fits]) (simp add: operation_statically_linked_report)
  also have "\<dots> = ([Write_pipe (GetSecondaryReportsPath penv) (wire fmt ?r)],
          Inr (True, reset_fd_table_entry (real_open penv (GetSecondaryReportsPath penv)) obs))"
    using Send_accepted[of penv "length (wire fmt ?r)" "GetSecondaryReportsPath penv" True
        "wire fmt ?r" obs] found opened full n
    by simp
  finally show ?thesis
    using ok
    by (simp add: grant_and_report_def io_bind_def io_return_def set_ptrace_permissions_def)
qed

lemma check_forced:
  assumes "ptraceSandboxEnabled obs"
    and "IsPTraceForced pth obs \<or> ptraceUnconditionallyEnabled obs"
  shows "check_and_report_statically_linked_process env penv fmt pth obs =
           grant_and_report env penv fmt pth True obs"
  using assms
  by (simp add: check_and_report_statically_linked_process_def grant_and_report_def)

lemma check_not_forced:
  assumes "ptraceSandboxEnabled obs"
    and "\<not> (IsPTraceForced pth obs \<or> ptraceUnconditionallyEnabled obs)"
  shows "check_and_report_statically_linked_process env penv fmt pth obs =
    (let key = dec_int (lstat_mtime_sec env pth) @ '':'' @ pth in
     case find (\<lambda>item. fst item = key) (staticallyLinkedProcessCache obs) of
       Some item \<Rightarrow>
         if snd item then grant_and_report env penv fmt pth True obs
         else ([], Inr (False, obs))
     | None \<Rightarrow>
         (let linked = (str_find (objdump_output env pth) ''Program Header:''
                         \<and> \<not> str_find (objdump_output env pth)
                               ''NEEDED               libc.so.'');
              obs1 = obs\<lparr>staticallyLinkedProcessCache :=
                          staticallyLinkedProcessCache obs @ [(key, linked)]\<rparr>;
              (tr, r) = (if linked then grant_and_report env penv fmt pth True obs1
                         else ([], Inr (False, obs1)))
          in (Run_objdump pth # tr, r)))"
  using assms
  by (auto simp: check_and_report_statically_linked_process_def grant_and_report_def
      io_bind_def io_return_def is_statically_linked_def Let_def
      split: option.splits prod.splits sum.splits)

text \<open>Every run of the decision is at most one run of objdump followed by at most one
  grant and, only after a grant that succeeded, one write on the secondary pipe.\<close>

lemma check_trace:
  "\<exists>pre W. fst (check_and_report_statically_linked_process env penv fmt pth obs) = pre @ W
     \<and> (pre = [] \<or> pre = [Run_objdump pth])
     \<and> (W = [] \<or> W = [Prctl_set_ptracer]
         \<or> (prctl_succeeds env \<and>
            (\<exists>obs1. W = [Prctl_set_ptracer,
               Write_pipe (GetSecondaryReportsPath penv)
                 (wire fmt (statically_linked_report env pth obs1))])))"
proof (cases "ptraceSandboxEnabled obs")
  case False
  then show ?thesis
    by (simp add: check_and_report_statically_linked_process_def io_return_def)
next
  case en: True
  show ?thesis
  proof (cases "IsPTraceForced pth obs \<or> ptraceUnconditionallyEnabled obs")
    case True
    let ?G = "grant_and_report env penv fmt pth True obs"
    have eqn: "fst (check_and_report_statically_linked_process env penv fmt pth obs) = [] @ fst ?G"
      by (simp add: check_forced[OF en True])
    have "fst ?G = [] \<or> fst ?G = [Prctl_set_ptracer]
         \<or> (prctl_succeeds env \<and>
            (\<exists>obs1. fst ?G = [Prctl_set_ptracer,
               Write_pipe (GetSecondaryReportsPath penv)
                 (wire fmt (statically_linked_report env pth obs1))]))"
      using grant_and_report_trace[of env penv fmt pth True obs] by auto
    with eqn show ?thesis by (intro exI conjI) (assumption, simp, assumption)
  next
    case False
    let ?key = "dec_int (lstat_mtime_sec env pth) @ '':'' @ pth"
    show ?thesis
    proof (cases "find (\<lambda>item. fst item = ?key) (staticallyLinkedProcessCache obs)")
      case (Some item)
      let ?G = "grant_and_report env penv fmt pth True obs"
      have eqn: "fst (check_and_report_statically_linked_process env penv fmt pth obs) =
                   [] @ (if snd item then fst ?G else [])"
        using Some by (simp add: check_not_forced[OF en False] Let_def)
      have "(if snd item then fst ?G else []) = []
         \<or> (if snd item then fst ?G else []) = [Prctl_set_ptracer]
         \<or> (prctl_succeeds env \<and>
            (\<exists>obs1. (if snd item then fst ?G else []) = [Prctl_set_ptracer,
               Write_pipe (GetSecondaryReportsPath penv)
                 (wire fmt (statically_linked_report env pth obs1))]))"
        using grant_and_report_trace[of env penv fmt pth True obs] by (cases "snd item") auto
      with eqn show ?thesis by (intro exI conjI) (assumption, simp, assumption)
    next
      case None
      let ?linked = "str_find (objdump_output env pth) ''Program Header:''
                       \<and> \<not> str_find (objdump_output env pth) ''NEEDED               libc.so.''"
      let ?obs1 = "obs\<lparr>staticallyLinkedProcessCache :=
                          staticallyLinkedProcessCache obs @ [(?key, ?linked)]\<rparr>"
      let ?G = "grant_and_report env penv fmt pth True ?obs1"
      have eqn: "fst (check_and_report_statically_linked_process env penv fmt pth obs) =
                   [Run_objdump pth] @ (if ?linked then fst ?G else [])"
        using None by (simp add: check_not_forced[OF en False] Let_def split_beta)
      have "(if ?linked then fst ?G else []) = []
         \<or> (if ?linked then fst ?G else []) = [Prctl_set_ptracer]
         \<or> (prctl_succeeds env \<and>
            (\<exists>obs1. (if ?linked then fst ?G else []) = [Prctl_set_ptracer,
               Write_pipe (GetSecondaryReportsPath penv)
                 (wire fmt (statically_linked_report env pth obs1))]))"
        using grant_and_report_trace[of env penv fmt pth True ?obs1] by (cases ?linked) auto
      with eqn show ?thesis by (intro exI conjI) (assumption, simp, assumption)
    qed
  qed
qed

text \<open>The example used below: the observer was constructed with the names \<open>gcc\<close> and
  \<open>ld\<close>, and \<open>/usr/bin/ld\<close> is executed.\<close>

lemma sample_forced:
  "ptraceSandboxEnabled sample_observer"
  "basename ''/usr/bin/ld'' \<in> set (forcedPTraceProcessNames sample_observer)"
  by (simp_all add: sample_observer_def new_BxlObserver_def basename_def)

lemma sample_report_length:
  "length (report_text sample_format (statically_linked_report willing_process ''/usr/bin/ld'' obs)
     (path (statically_linked_report willing_process ''/usr/bin/ld'' obs)))
   = length (dec_int (pipProcessId obs)) + length (dec_int (pipPipId obs)) + 22"
  by (simp add: report_text_def sample_format_def statically_linked_report_def
      willing_process_def MAXPATHLEN_def dec_int_def dec_nat.simps)

lemma sample_check_result:
  "check_and_report_statically_linked_process willing_process accepting_pipe sample_format
     ''/usr/bin/ld'' sample_observer =
   ([Prctl_set_ptracer,
     Write_pipe ''/tmp/bxl.fifo2''
       (wire sample_format (statically_linked_report willing_process ''/usr/bin/ld'' sample_observer))],
    Inr (True, reset_fd_table_entry 3 sample_observer))"
proof -
  let ?r = "statically_linked_report willing_process ''/usr/bin/ld'' sample_observer"
  have len: "length (report_text sample_format ?r (path ?r)) = 24"
    by (simp add: sample_report_length)
      (simp add: sample_observer_def new_BxlObserver_def dec_int_def dec_nat.simps)
  have forced: "IsPTraceForced ''/usr/bin/ld'' sample_observer
                  \<or> ptraceUnconditionallyEnabled sample_observer"
    using sample_forced(2) by (auto simp: IsPTraceForced_def)
  have "grant_and_report willing_process accepting_pipe sample_format ''/usr/bin/ld'' True
          sample_observer =
        ([Prctl_set_ptracer, Write_pipe (GetSecondaryReportsPath accepting_pipe) (wire sample_format ?r)],
         Inr (True, reset_fd_table_entry
                (real_open accepting_pipe (GetSecondaryReportsPath accepting_pipe)) sample_observer))"
  proof (rule grant_and_report_success)
    show "prctl_succeeds willing_process" by (simp add: willing_process_def)
    show "length (report_text sample_format ?r (path ?r)) < PIPE_BUF - 4"
      by (simp add: len PIPE_BUF_def)
    show "real_open_found accepting_pipe" by (simp add: accepting_pipe_def)
    show "real_open accepting_pipe (GetSecondaryReportsPath accepting_pipe) \<noteq> - 1"
      by (simp add: accepting_pipe_def)
    show "\<not> real_write accepting_pipe (real_open accepting_pipe (GetSecondaryReportsPath accepting_pipe))
             (wire sample_format ?r) mod 2 ^ 64 < int (length (wire sample_format ?r))"
      by (simp add: accepting_pipe_def wire_def length_le32 len)
  qed
  then show ?thesis
    unfolding check_forced[OF sample_forced(1) forced]
    by (simp add: accepting_pipe_def)
qed

lemma long_exe_forced:
  "basename long_exe \<in> set (forcedPTraceProcessNames sample_observer)"
  by (simp add: long_exe_def basename_def sample_observer_def new_BxlObserver_def)

lemma sample_is_forced:
  "IsPTraceForced ''/usr/bin/ld'' sample_observer \<or> ptraceUnconditionallyEnabled sample_observer"
  "IsPTraceForced long_exe sample_observer \<or> ptraceUnconditionallyEnabled sample_observer"
  using sample_forced(2) long_exe_forced by (auto simp: IsPTraceForced_def)

lemma sample_report_fits:
  "length (report_text sample_format
             (statically_linked_report willing_process ''/usr/bin/ld'' sample_observer)
             (path (statically_linked_report willing_process ''/usr/bin/ld'' sample_observer)))
     = 24"
  by (simp add: sample_report_length)
    (simp add: sample_observer_def new_BxlObserver_def dec_int_def dec_nat.simps)

lemma sample_send:
  "SendReport penv sample_format
     (statically_linked_report willing_process ''/usr/bin/ld'' sample_observer) False True
     sample_observer =
   Send penv
     (wire sample_format (statically_linked_report willing_process ''/usr/bin/ld'' sample_observer))
     28 True sample_observer"
proof -
  let ?r = "statically_linked_report willing_process ''/usr/bin/ld'' sample_observer"
  have "length (report_text sample_format ?r (path ?r)) < PIPE_BUF - 4"
    by (simp add: sample_report_fits PIPE_BUF_def)
  from SendReport_fits[OF _ this, of penv False True sample_observer]
  show ?thesis
    by (simp add: operation_statically_linked_report wire_def length_le32 sample_report_fits)
qed

text \<open>
  Claim C6, as stated: for every executable whose basename is in the list of forced
  process names, with the ptrace sandbox enabled, the function returns true, grants the
  permission and sends the report on the secondary pipe. This fails whenever the process
  is ended before the function returns: for an executable with a path of 4092 characters
  and the basename \<open>ld\<close> the report does not fit the pipe and \<open>SendReport\<close> aborts
  after the permission was granted; when \<open>prctl\<close> fails the process exits; and the
  process is aborted when \<open>open\<close> was not found, when the secondary pipe cannot be
  opened and when the write is short.
\<close>

theorem forced_trace_process_ended:
  "ptraceSandboxEnabled sample_observer
   \<and> basename long_exe \<in> set (forcedPTraceProcessNames sample_observer)
   \<and> check_and_report_statically_linked_process willing_process accepting_pipe sample_format
        long_exe sample_observer = ([Prctl_set_ptracer], Inl Fatal_message_truncated)
   \<and> basename ''/usr/bin/ld'' \<in> set (forcedPTraceProcessNames sample_observer)
   \<and> check_and_report_statically_linked_process unwilling_process accepting_pipe sample_format
        ''/usr/bin/ld'' sample_observer = ([Prctl_set_ptracer], Inl (Exit_called (- 1)))
   \<and> check_and_report_statically_linked_process willing_process no_open_pipe sample_format
        ''/usr/bin/ld'' sample_observer = ([Prctl_set_ptracer], Inl Fatal_open_not_found)
   \<and> check_and_report_statically_linked_process willing_process closed_pipe sample_format
        ''/usr/bin/ld'' sample_observer
       = ([Prctl_set_ptracer], Inl Fatal_cannot_open_reports_path)
   \<and> snd (check_and_report_statically_linked_process willing_process short_pipe sample_format
        ''/usr/bin/ld'' sample_observer) = Inl Fatal_short_write"
proof (intro conjI)
  show "ptraceSandboxEnabled sample_observer" by (rule sample_forced(1))
  show "basename long_exe \<in> set (forcedPTraceProcessNames sample_observer)"
    by (rule long_exe_forced)
  show "basename ''/usr/bin/ld'' \<in> set (forcedPTraceProcessNames sample_observer)"
    by (rule sample_forced(2))
  have w: "prctl_succeeds willing_process" by (simp add: willing_process_def)
  have over: "PIPE_BUF - 4 \<le> length (report_text sample_format
                 (statically_linked_report willing_process long_exe sample_observer)
                 (path (statically_linked_report willing_process long_exe sample_observer)))"
    by (simp add: report_text_def statically_linked_report_def long_exe_def MAXPATHLEN_def
        PIPE_BUF_def)
  show "check_and_report_statically_linked_process willing_process accepting_pipe sample_format
        long_exe sample_observer = ([Prctl_set_ptracer], Inl Fatal_message_truncated)"
    unfolding check_forced[OF sample_forced(1) sample_is_forced(2)] grant_and_report_def
    using w
    by (simp add: SendReport_not_debug_over[OF operation_statically_linked_report_not_completed over]
        io_bind_def set_ptrace_permissions_def)
  show "check_and_report_statically_linked_process unwilling_process accepting_pipe sample_format
        ''/usr/bin/ld'' sample_observer = ([Prctl_set_ptracer], Inl (Exit_called (- 1)))"
    unfolding check_forced[OF sample_forced(1) sample_is_forced(1)] grant_and_report_def
    by (simp add: io_bind_def set_ptrace_permissions_def unwilling_process_def
        willing_process_def)
  show "check_and_report_statically_linked_process willing_process no_open_pipe sample_format
        ''/usr/bin/ld'' sample_observer = ([Prctl_set_ptracer], Inl Fatal_open_not_found)"
    unfolding check_forced[OF sample_forced(1) sample_is_forced(1)] grant_and_report_def
      sample_send
    using w by (simp add: io_bind_def set_ptrace_permissions_def Send_def no_open_pipe_def
        accepting_pipe_def)
  show "check_and_report_statically_linked_process willing_process closed_pipe sample_format
        ''/usr/bin/ld'' sample_observer
       = ([Prctl_set_ptracer], Inl Fatal_cannot_open_reports_path)"
    unfolding check_forced[OF sample_forced(1) sample_is_forced(1)] grant_and_report_def
      sample_send
    using w by (simp add: io_bind_def set_ptrace_permissions_def Send_def closed_pipe_def
        accepting_pipe_def PIPE_BUF_def)
  show "snd (check_and_report_statically_linked_process willing_process short_pipe sample_format
        ''/usr/bin/ld'' sample_observer) = Inl Fatal_short_write"
    unfolding check_forced[OF sample_forced(1) sample_is_forced(1)] grant_and_report_def
      sample_send
    using w by (simp add: io_bind_def set_ptrace_permissions_def Send_def short_pipe_def
        accepting_pipe_def PIPE_BUF_def Let_def)
qed

text \<open>
  Claim C6, amended. With the ptrace sandbox enabled and the basename of the executable
  in the list of forced process names, whatever objdump would print for the binary:
  \<open>check_and_report_statically_linked_process\<close> never runs objdump; its first call is
  the one that grants the tracing permission; whenever it returns, it returns true, the
  permission was granted and the statically-linked report was then written on the
  secondary pipe; and it does return when \<open>prctl\<close> succeeds and the report can be sent
  (the record is shorter than \<open>PIPE_BUF - 4\<close>, \<open>open\<close> is found, the pipe opens and
  the write is not short). In the remaining runs the process is ended by \<open>exit\<close> or
  \<open>_fatal\<close>.
\<close>

theorem forced_trace_decision:
  assumes "ptraceSandboxEnabled obs"
    and "basename pth \<in> set (forcedPTraceProcessNames obs)"
  shows "(\<forall>p. Run_objdump p
             \<notin> set (fst (check_and_report_statically_linked_process env penv fmt pth obs)))
    \<and> (\<exists>rest. fst (check_and_report_statically_linked_process env penv fmt pth obs)
                  = Prctl_set_ptracer # rest)
    \<and> (\<forall>x. snd (check_and_report_statically_linked_process env penv fmt pth obs) = Inr x
          \<longrightarrow> prctl_succeeds env
            \<and> check_and_report_statically_linked_process env penv fmt pth obs =
                ([Prctl_set_ptracer,
                  Write_pipe (GetSecondaryReportsPath penv)
                    (wire fmt (statically_linked_report env pth obs))],
                 Inr (True, reset_fd_table_entry
                              (real_open penv (GetSecondaryReportsPath penv)) obs)))
    \<and> (prctl_succeeds env
        \<and> length (report_text fmt (statically_linked_report env pth obs)
                    (path (statically_linked_report env pth obs))) < PIPE_BUF - 4
        \<and> real_open_found penv
        \<and> real_open penv (GetSecondaryReportsPath penv) \<noteq> - 1
        \<and> \<not> real_write penv (real_open penv (GetSecondaryReportsPath penv))
                (wire fmt (statically_linked_report env pth obs)) mod 2 ^ 64
              < int (length (wire fmt (statically_linked_report env pth obs)))
       \<longrightarrow> check_and_report_statically_linked_process env penv fmt pth obs =
             ([Prctl_set_ptracer,
               Write_pipe (GetSecondaryReportsPath penv)
                 (wire fmt (statically_linked_report env pth obs))],
              Inr (True, reset_fd_table_entry (real_open penv (GetSecondaryReportsPath penv))
                           obs)))"
proof -
  let ?G = "grant_and_report env penv fmt pth True obs"
  have forced: "IsPTraceForced pth obs \<or> ptraceUnconditionallyEnabled obs"
    using assms(2) by (auto simp: IsPTraceForced_def)
  note eq = check_forced[OF assms(1) forced, of env penv fmt]
  have a: "\<forall>p. Run_objdump p \<notin> set (fst ?G)"
    using grant_and_report_trace[of env penv fmt pth True obs] by auto
  have b: "\<exists>rest. fst ?G = Prctl_set_ptracer # rest"
    using grant_and_report_trace[of env penv fmt pth True obs] by auto
  have c: "\<forall>x. snd ?G = Inr x \<longrightarrow> prctl_succeeds env \<and> ?G =
              ([Prctl_set_ptracer,
                Write_pipe (GetSecondaryReportsPath penv)
                  (wire fmt (statically_linked_report env pth obs))],
               Inr (True, reset_fd_table_entry
                            (real_open penv (GetSecondaryReportsPath penv)) obs))"
    using grant_and_report_outcomes[of env penv fmt pth True obs] by auto
  show ?thesis
    unfolding eq using a b c grant_and_report_success[of env fmt pth obs penv True]
    by (intro conjI impI) (assumption, assumption, assumption, simp)
qed

theorem forced_trace_decision_witness:
  "ptraceSandboxEnabled sample_observer
   \<and> basename ''/usr/bin/ld'' \<in> set (forcedPTraceProcessNames sample_observer)
   \<and> snd (check_and_report_statically_linked_process willing_process accepting_pipe
            sample_format ''/usr/bin/ld'' sample_observer)
       = Inr (True, reset_fd_table_entry 3 sample_observer)
   \<and> (\<forall>p. Run_objdump p
            \<notin> set (fst (check_and_report_statically_linked_process willing_process
                           accepting_pipe sample_format ''/usr/bin/ld'' sample_observer)))
   \<and> prctl_succeeds willing_process
   \<and> check_and_report_statically_linked_process willing_process accepting_pipe sample_format
        ''/usr/bin/ld'' sample_observer =
      ([Prctl_set_ptracer,
        Write_pipe ''/tmp/bxl.fifo2''
          (wire sample_format
             (statically_linked_report willing_process ''/usr/bin/ld'' sample_observer))],
       Inr (True, reset_fd_table_entry 3 sample_observer))"
proof -
  note T = forced_trace_decision[OF sample_forced, of willing_process accepting_pipe sample_format]
  have r: "snd (check_and_report_statically_linked_process willing_process accepting_pipe
            sample_format ''/usr/bin/ld'' sample_observer)
       = Inr (True, reset_fd_table_entry 3 sample_observer)"
    by (simp add: sample_check_result)
  from T r have ok: "prctl_succeeds willing_process" by blast
  from T have no: "\<forall>p. Run_objdump p
            \<notin> set (fst (check_and_report_statically_linked_process willing_process
                           accepting_pipe sample_format ''/usr/bin/ld'' sample_observer))"
    by blast
  show ?thesis by (intro conjI sample_forced r no ok sample_check_result)
qed

text \<open>
  Claim C7. In every run of the decision, a write of a report is preceded by the call
  that grants the tracing permission, and that call succeeded; the write is on the
  secondary pipe and its bytes are those of the statically-linked report
  (operation \<open>kOpStaticallyLinkedProcess\<close>).
\<close>

theorem permission_before_report:
  assumes "fst (check_and_report_statically_linked_process env penv fmt pth obs) = tr"
    and "i < length tr" and "tr ! i = Write_pipe pipe bytes"
  shows "prctl_succeeds env \<and> (\<exists>j<i. tr ! j = Prctl_set_ptracer)
     \<and> pipe = GetSecondaryReportsPath penv
     \<and> (\<exists>obs1. bytes = wire fmt (statically_linked_report env pth obs1)
               \<and> operation (statically_linked_report env pth obs1) = kOpStaticallyLinkedProcess)"
proof -
  let ?W = "\<lambda>obs1. Write_pipe (GetSecondaryReportsPath penv)
                     (wire fmt (statically_linked_report env pth obs1))"
  from check_trace[of env penv fmt pth obs] assms(1)
  obtain pre W where tr: "tr = pre @ W"
    and pre: "pre = [] \<or> pre = [Run_objdump pth]"
    and W: "W = [] \<or> W = [Prctl_set_ptracer]
         \<or> (prctl_succeeds env \<and> (\<exists>obs1. W = [Prctl_set_ptracer, ?W obs1]))"
    by auto
  have no_write: False if "tr = pre @ W'" "W' = [] \<or> W' = [Prctl_set_ptracer]" for W'
    using that pre assms(2,3) by (auto simp: nth_Cons' less_Suc_eq split: if_splits)
  from W no_write[OF tr] obtain obs1 where ok: "prctl_succeeds env"
    and Weq: "W = [Prctl_set_ptracer, ?W obs1]"
    by blast
  note op = operation_statically_linked_report[of env pth obs1]
  from pre show ?thesis
  proof
    assume "pre = []"
    with tr Weq have t: "tr = [Prctl_set_ptracer, ?W obs1]" by simp
    with assms(2,3) have i: "i = 1" by (cases i) auto
    have "tr ! 0 = Prctl_set_ptracer" using t by simp
    moreover have "pipe = GetSecondaryReportsPath penv
                     \<and> bytes = wire fmt (statically_linked_report env pth obs1)"
      using assms(3) t i by simp
    ultimately show ?thesis using ok i op by auto
  next
    assume "pre = [Run_objdump pth]"
    with tr Weq have t: "tr = [Run_objdump pth, Prctl_set_ptracer, ?W obs1]" by simp
    with assms(2,3) have i: "i = 2"
      by (cases i; simp) (rename_tac k, case_tac k; simp)
    have "tr ! 1 = Prctl_set_ptracer" using t by simp
    moreover have "pipe = GetSecondaryReportsPath penv
                     \<and> bytes = wire fmt (statically_linked_report env pth obs1)"
      using assms(3) t i by simp
    ultimately show ?thesis using ok i op by (auto intro: exI[of _ 1])
  qed
qed

theorem permission_before_report_witness:
  "fst (check_and_report_statically_linked_process willing_process accepting_pipe sample_format
          ''/usr/bin/ld'' sample_observer) =
     [Prctl_set_ptracer,
      Write_pipe ''/tmp/bxl.fifo2''
        (wire sample_format
           (statically_linked_report willing_process ''/usr/bin/ld'' sample_observer))]
   \<and> (1::nat) < length [Prctl_set_ptracer,
      Write_pipe ''/tmp/bxl.fifo2''
        (wire sample_format
           (statically_linked_report willing_process ''/usr/bin/ld'' sample_observer))]
   \<and> [Prctl_set_ptracer,
      Write_pipe ''/tmp/bxl.fifo2''
        (wire sample_format
           (statically_linked_report willing_process ''/usr/bin/ld'' sample_observer))] ! 1
       = Write_pipe ''/tmp/bxl.fifo2''
        (wire sample_format
           (statically_linked_report willing_process ''/usr/bin/ld'' sample_observer))
   \<and> prctl_succeeds willing_process
   \<and> (\<exists>j<1. [Prctl_set_ptracer,
      Write_pipe ''/tmp/bxl.fifo2''
        (wire sample_format
           (statically_linked_report willing_process ''/usr/bin/ld'' sample_observer))] ! j
        = Prctl_set_ptracer)
   \<and> ''/tmp/bxl.fifo2'' = GetSecondaryReportsPath accepting_pipe"
proof -
  let ?tr = "[Prctl_set_ptracer,
      Write_pipe ''/tmp/bxl.fifo2''
        (wire sample_format
           (statically_linked_report willing_process ''/usr/bin/ld'' sample_observer))]"
  have h1: "fst (check_and_report_statically_linked_process willing_process accepting_pipe
                   sample_format ''/usr/bin/ld'' sample_observer) = ?tr"
    by (simp add: sample_check_result)
  have h2: "(1::nat) < length ?tr" by simp
  have h3: "?tr ! 1 = Write_pipe ''/tmp/bxl.fifo2''
        (wire sample_format
           (statically_linked_report willing_process ''/usr/bin/ld'' sample_observer))"
    by simp
  from permission_before_report[OF h1 h2 h3] h1 h2 h3
  show ?thesis by blast
qed

subsection \<open>Resolving a path\<close>

lemma find_prev_slash_pos:
  "0 < n \<Longrightarrow> find_prev_slash s n =
     (if char_at s (n - 1) = CHR ''/'' then Some (n - 1) else find_prev_slash s (n - 1))"
  by (cases n) simp_all


lemma fuel_at_least_11:
  "11 \<le> (fuel::nat) \<Longrightarrow>
     \<exists>k. fuel = Suc (Suc (Suc (Suc (Suc (Suc (Suc (Suc (Suc (Suc (Suc k))))))))))"
  by (rule exI[of _ "fuel - 11"]) simp

lemmas resolve_defs =
  resolve_path_def resolve_iteration_def resolve_symlink_def char_at_def
  find_prev_slash_pos shift_left_def Let_def PATH_MAX_def NUL_def



text \<open>
  Claim C5. On a file system where \<open>/a\<close>, \<open>/a/b\<close> and (when the final link is
  followed) \<open>/a/c\<close> are not links, \<open>resolve_path\<close> rewrites \<open>/a/./b/../c\<close> to
  \<open>/a/c\<close>; the only \<open>readlink\<close> calls are for \<open>/a\<close>, \<open>/a/b\<close> and, when the final
  link is followed, \<open>/a/c\<close>: none is made for \<open>/a/.\<close> or \<open>/a/b/..\<close>, and no report is
  sent.
\<close>

theorem resolve_path_dot_segments:
  assumes "real_readlink ''/a'' = None"
    and "real_readlink ''/a/b'' = None"
    and "followFinalSymlink \<longrightarrow> real_readlink ''/a/c'' = None"
    and "11 \<le> fuel"
  shows "resolve_path real_readlink followFinalSymlink fuel (Some ''/a/./b/../c'') =
           Some (Inr (Some ''/a/c'',
             [Readlink ''/a'', Readlink ''/a/b'']
               @ (if followFinalSymlink then [Readlink ''/a/c''] else [])))
       \<and> Readlink ''/a/.'' \<notin> set ([Readlink ''/a'', Readlink ''/a/b'']
               @ (if followFinalSymlink then [Readlink ''/a/c''] else []))
       \<and> Readlink ''/a/b/..'' \<notin> set ([Readlink ''/a'', Readlink ''/a/b'']
               @ (if followFinalSymlink then [Readlink ''/a/c''] else []))"
proof -
  from fuel_at_least_11[OF assms(4)] obtain k
    where k: "fuel = Suc (Suc (Suc (Suc (Suc (Suc (Suc (Suc (Suc (Suc (Suc k))))))))))" ..
  show ?thesis
    unfolding k using assms(1,2,3)
    by (cases followFinalSymlink) (simp_all add: resolve_defs)
qed

theorem resolve_path_dot_segments_witness:
  "Map.empty ''/a'' = (None::string option) \<and> Map.empty ''/a/b'' = (None::string option)
   \<and> Map.empty ''/a/c'' = (None::string option) \<and> (11::nat) \<le> 11
   \<and> resolve_path Map.empty True 11 (Some ''/a/./b/../c'') =
        Some (Inr (Some ''/a/c'', [Readlink ''/a'', Readlink ''/a/b'', Readlink ''/a/c'']))"
proof -
  have h1: "Map.empty ''/a'' = (None::string option)" by simp
  have h2: "Map.empty ''/a/b'' = (None::string option)" by simp
  have h3: "True \<longrightarrow> Map.empty ''/a/c'' = (None::string option)" by simp
  have h4: "(11::nat) \<le> 11" by simp
  from resolve_path_dot_segments[OF h1 h2 h3 h4] show ?thesis by simp
qed

subsection \<open>Enumerating a directory\<close>

text \<open>
  Claim C9, as stated: when opening one subdirectory fails, the enumeration skips only
  that subtree, goes on with the directories already discovered and returns false. This
  fails: in the sample tree, \<open>/r\<close> holds the directories \<open>d1\<close> and \<open>d2\<close>, \<open>/r/d2\<close>
  cannot be opened and \<open>/r/d1\<close> holds the file \<open>f\<close>; the enumeration returns false
  when \<open>/r/d2\<close> fails, and \<open>/r/d1\<close>, discovered before and readable, is never
  opened, so \<open>/r/d1/f\<close> is not listed.
\<close>

theorem EnumerateDirectory_stops_at_failure:
  "EnumerateDirectory sample_tree 10 ''/r'' True = Some (False, [''/r'', ''/r/d1'', ''/r/d2''])
   \<and> sample_tree ''/r/d1'' = Some [\<lparr>d_name = ''f'', d_type = DT_REG\<rparr>]
   \<and> ''/r/d1/f'' \<notin> set [''/r'', ''/r/d1'', ''/r/d2'']"
  by (simp add: EnumerateDirectory_def sample_tree_def eval_nat_numeral Let_def)

lemma enumerate_loop_after_passes:
  assumes "enumerate_passes real_opendir recursive k (stack, files) = Some (stack', files')"
  shows "enumerate_loop real_opendir recursive (k + fuel) stack files =
           enumerate_loop real_opendir recursive fuel stack' files'"
  using assms
proof (induction k arbitrary: stack files)
  case 0
  then show ?case by simp
next
  case (Suc k)
  show ?case
  proof (cases stack)
    case Nil
    with Suc.prems show ?thesis by simp
  next
    case (Cons d rest)
    show ?thesis
    proof (cases "real_opendir d")
      case None
      with Suc.prems Cons show ?thesis by simp
    next
      case (Some ents)
      obtain s1 f1 where rd: "readdir_loop d recursive ents rest files = (s1, f1)"
        by (cases "readdir_loop d recursive ents rest files")
      from Suc.prems Cons Some rd
      have "enumerate_passes real_opendir recursive k (s1, f1) = Some (stack', files')"
        by simp
      from Suc.IH[OF this] Cons Some rd show ?thesis by simp
    qed
  qed
qed

text \<open>
  Claim C9, amended. When, after any number of passes of the loop, the directory on top
  of the stack cannot be opened, \<open>EnumerateDirectory\<close> returns false at once: whatever
  directories are still on the stack are not enumerated, and \<open>filesAndDirectories\<close>
  holds exactly the entries collected before the failure.
\<close>

theorem EnumerateDirectory_returns_false_at_failure:
  assumes "enumerate_passes real_opendir recursive k ([rootDirectory], [rootDirectory])
             = Some (failing # stack, filesAndDirectories)"
    and "real_opendir failing = None"
    and "k < fuel"
  shows "EnumerateDirectory real_opendir fuel rootDirectory recursive
           = Some (False, filesAndDirectories)"
proof -
  define m where "m = fuel - Suc k"
  have fuel: "fuel = k + Suc m" using assms(3) by (simp add: m_def)
  have "enumerate_loop real_opendir recursive (k + Suc m) [rootDirectory] [rootDirectory] =
          enumerate_loop real_opendir recursive (Suc m) (failing # stack) filesAndDirectories"
    by (rule enumerate_loop_after_passes[OF assms(1)])
  also have "\<dots> = Some (False, filesAndDirectories)"
    using assms(2) by simp
  finally show ?thesis by (simp add: EnumerateDirectory_def fuel)
qed

theorem EnumerateDirectory_returns_false_at_failure_witness:
  "enumerate_passes sample_tree True 1 ([''/r''], [''/r''])
     = Some (''/r/d2'' # [''/r/d1''], [''/r'', ''/r/d1'', ''/r/d2''])
   \<and> sample_tree ''/r/d2'' = None
   \<and> (1::nat) < 2
   \<and> EnumerateDirectory sample_tree 2 ''/r'' True = Some (False, [''/r'', ''/r/d1'', ''/r/d2''])"
proof -
  have h1: "enumerate_passes sample_tree True 1 ([''/r''], [''/r''])
     = Some (''/r/d2'' # [''/r/d1''], [''/r'', ''/r/d1'', ''/r/d2''])"
    by (simp add: sample_tree_def Let_def)
  have h2: "sample_tree ''/r/d2'' = None" by (simp add: sample_tree_def)
  have h3: "(1::nat) < 2" by simp
  from EnumerateDirectory_returns_false_at_failure[OF h1 h2 h3] h1 h2 h3
  show ?thesis by blast
qed

subsection \<open>Reporting an access whose mode is unknown\<close>

lemma SendReport_group_first_only:
  assumes "shouldReport (firstReport g)" and "\<not> shouldReport (secondReport g)"
    and "operation (firstReport g) \<noteq> kOpProcessTreeCompleted"
    and "length (report_text fmt (firstReport g) (path (firstReport g))) < PIPE_BUF - 4"
    and "real_open_found env" and "real_open env (GetReportsPath env) \<noteq> - 1"
    and "\<not> real_write env (real_open env (GetReportsPath env)) (wire fmt (firstReport g))
              mod 2 ^ 64 < int (length (wire fmt (firstReport g)))"
  shows "SendReport_group env fmt g obs =
           ([Write_pipe (GetReportsPath env) (wire fmt (firstReport g))],
            Inr (True, reset_fd_table_entry (real_open env (GetReportsPath env)) obs))"
proof -
  have n: "length (wire fmt (firstReport g)) \<le> PIPE_BUF"
    using assms(4) by (simp add: wire_def length_le32)
  have "SendReport env fmt (firstReport g) False False obs =
          Send env (wire fmt (firstReport g)) (length (wire fmt (firstReport g))) False obs"
    by (rule SendReport_fits[OF assms(3,4)])
  also have "\<dots> = ([Write_pipe (GetReportsPath env) (wire fmt (firstReport g))],
            Inr (True, reset_fd_table_entry (real_open env (GetReportsPath env)) obs))"
    using Send_accepted[of env "length (wire fmt (firstReport g))" "GetReportsPath env" False
        "wire fmt (firstReport g)" obs] assms(5,6,7) n
    by simp
  finally show ?thesis
    using assms(1,2) by (simp add: SendReport_group_def io_bind_def io_return_def)
qed

lemma SendReport_group_unmarked:
  assumes "\<not> shouldReport (firstReport g)" and "\<not> shouldReport (secondReport g)"
  shows "SendReport_group env fmt g obs = ([], Inr (True, obs))"
  using assms by (simp add: SendReport_group_def io_bind_def io_return_def)

text \<open>
  Claim C10, as stated: an access whose mode could not be determined passes the non-file
  filter, reaches the policy check and is reported, and the not-checked sentinel is not
  returned. This fails in four ways, in each of which \<open>get_mode\<close> yields 0. For the
  anonymous file \<open>/memfd:x (deleted)\<close>, for an observer that is not enabled for the
  process, and for a path that the duplicate cache already holds, the sentinel is
  returned and the report group is left as it was. And when the policy engine marks no
  report of the group, \<open>report_access_internal\<close> writes nothing.
\<close>

theorem unknown_mode_not_reported:
  "get_mode sample_access_env ''/memfd:x (deleted)'' = 0
   \<and> create_access_internal sample_access_env ES_EVENT_TYPE_NOTIFY_STAT ''/memfd:x (deleted)''
        None empty_group 0 True 0 sample_observer
       = (sNotChecked sample_observer, empty_group, sample_observer)
   \<and> get_mode disabled_env ''/tmp/gone'' = 0
   \<and> create_access_internal disabled_env ES_EVENT_TYPE_NOTIFY_STAT ''/tmp/gone''
        None empty_group 0 True 0 sample_observer
       = (sNotChecked sample_observer, empty_group, sample_observer)
   \<and> create_access_internal sample_access_env ES_EVENT_TYPE_NOTIFY_STAT ''/tmp/gone''
        None empty_group 0 True 0 observer_with_entry
       = (sNotChecked observer_with_entry, empty_group, observer_with_entry)
   \<and> get_mode silent_policy_env ''/tmp/gone'' = 0
   \<and> fst (report_access_internal silent_policy_env accepting_pipe sample_format empty_group
        ES_EVENT_TYPE_NOTIFY_STAT ''/tmp/gone'' None 0 2 True 0 sample_observer) = []"
proof (intro conjI)
  show "get_mode sample_access_env ''/memfd:x (deleted)'' = 0"
    by (simp add: sample_access_env_def)
  show "get_mode disabled_env ''/tmp/gone'' = 0"
    by (simp add: disabled_env_def sample_access_env_def)
  show "get_mode silent_policy_env ''/tmp/gone'' = 0"
    by (simp add: silent_policy_env_def sample_access_env_def)
  show "create_access_internal sample_access_env ES_EVENT_TYPE_NOTIFY_STAT ''/memfd:x (deleted)''
        None empty_group 0 True 0 sample_observer
       = (sNotChecked sample_observer, empty_group, sample_observer)"
    by (simp add: create_access_internal_def create_access_def IsCacheHit_def CheckCache_def
        default_label_def is_non_file_def is_anonymous_file_def Let_def
        sample_access_env_def sample_observer_def new_BxlObserver_def)
  show "create_access_internal disabled_env ES_EVENT_TYPE_NOTIFY_STAT ''/tmp/gone''
        None empty_group 0 True 0 sample_observer
       = (sNotChecked sample_observer, empty_group, sample_observer)"
    by (simp add: create_access_internal_def create_access_def IsCacheHit_def CheckCache_def
        default_label_def is_non_file_def is_anonymous_file_def Let_def
        disabled_env_def sample_access_env_def sample_observer_def new_BxlObserver_def)
  show "create_access_internal sample_access_env ES_EVENT_TYPE_NOTIFY_STAT ''/tmp/gone''
        None empty_group 0 True 0 observer_with_entry
       = (sNotChecked observer_with_entry, empty_group, observer_with_entry)"
    by (simp add: create_access_internal_def IsCacheHit_def CheckCache_def
        default_label_def Let_def observer_with_entry_def
        sample_access_env_def sample_observer_def new_BxlObserver_def)
  show "fst (report_access_internal silent_policy_env accepting_pipe sample_format empty_group
        ES_EVENT_TYPE_NOTIFY_STAT ''/tmp/gone'' None 0 2 True 0 sample_observer) = []"
    by (simp add: report_access_internal_def create_access_internal_def create_access_def
        IsCacheHit_def CheckCache_def default_label_def is_non_file_def is_anonymous_file_def
        Let_def silent_policy_env_def sample_access_env_def sample_observer_def
        new_BxlObserver_def SendReport_group_unmarked SetErrno_def empty_group_def)
qed

text \<open>
  Claim C10, amended. When the mode of an access could not be determined (\<open>get_mode\<close>
  yields 0) and the cache probe did not answer first, \<open>is_non_file\<close> is false and
  \<open>create_access_internal\<close> does not return at the non-file filter: its result is that
  of \<open>create_access\<close> on the event built with mode 0. When neither path is an
  anonymous file and the observer is enabled for the process, that result is the
  decision of the policy engine on this event with the report group it filled, and
  \<open>report_access_internal\<close> sets the error code in this group and sends those of its
  reports that are marked \<open>shouldReport\<close>. When the path is an anonymous file or the
  observer is not enabled, the result is the not-checked sentinel with the group as it
  was.
\<close>

theorem create_access_internal_unknown_mode:
  assumes "mode = 0" and "get_mode env reportPath = 0"
    and "\<not> (checkCache \<and> fst (IsCacheHit (lockProbe env) eventType reportPath
                  (case secondPath of None \<Rightarrow> [] | Some s \<Rightarrow> s) obs))"
    and "event =
          \<lparr>ev_pid = (if associatedPid = 0 then getpid env else associatedPid),
           ev_cpid = 0, ev_ppid = getppid env, ev_eventType = eventType,
           ev_srcPath = reportPath,
           ev_dstPath = (case secondPath of None \<Rightarrow> [] | Some s \<Rightarrow> s),
           ev_execPath = (if eventType = ES_EVENT_TYPE_NOTIFY_EXEC then reportPath
                          else progFullPath obs),
           ev_mode = 0, ev_modified = False\<rparr>"
  shows "\<not> is_non_file (get_mode env reportPath)
    \<and> create_access_internal env eventType reportPath secondPath reportGroup mode checkCache
          associatedPid obs = create_access env event reportGroup False obs
    \<and> (\<not> is_anonymous_file reportPath
        \<and> (secondPath = None \<or> secondPath = Some []
             \<or> (\<exists>s. secondPath = Some s \<and> \<not> is_anonymous_file s))
        \<and> IsEnabled env (ev_pid event)
       \<longrightarrow> fst (create_access_internal env eventType reportPath secondPath reportGroup mode
                   checkCache associatedPid obs) = fst (CheckAccessAndBuildReport env event)
           \<and> fst (snd (create_access_internal env eventType reportPath secondPath reportGroup
                   mode checkCache associatedPid obs)) = snd (CheckAccessAndBuildReport env event)
           \<and> report_access_internal env penv fmt reportGroup eventType reportPath secondPath
                mode err checkCache associatedPid obs =
               SendReport_group penv fmt
                 (SetErrno err (snd (CheckAccessAndBuildReport env event)))
                 (snd (snd (create_access_internal env eventType reportPath secondPath
                              reportGroup mode checkCache associatedPid obs))))
    \<and> (is_anonymous_file reportPath \<or> \<not> IsEnabled env (ev_pid event)
       \<longrightarrow> create_access_internal env eventType reportPath secondPath reportGroup mode
             checkCache associatedPid obs = (sNotChecked obs, reportGroup, obs))"
proof -
  let ?C = "create_access_internal env eventType reportPath secondPath reportGroup mode
              checkCache associatedPid obs"
  have nf: "\<not> is_non_file (get_mode env reportPath)"
    using assms(2) is_non_file_zero by simp
  have eq: "?C = create_access env event reportGroup False obs"
    using assms is_non_file_zero IsCacheHit_keeps_observer
    by (auto simp: create_access_internal_def Let_def split_beta)
  have pid: "(if ev_pid event = 0 then getpid env else ev_pid event) = ev_pid event"
    using assms(4) by simp
  have pol: "fst ?C = fst (CheckAccessAndBuildReport env event)
           \<and> fst (snd ?C) = snd (CheckAccessAndBuildReport env event)"
    if "\<not> is_anonymous_file reportPath"
      and "secondPath = None \<or> secondPath = Some []
             \<or> (\<exists>s. secondPath = Some s \<and> \<not> is_anonymous_file s)"
      and "IsEnabled env (ev_pid event)"
  proof -
    have src: "\<not> is_anonymous_file (ev_srcPath event)" using that(1) assms(4) by simp
    have dst: "\<not> (length (ev_dstPath event) > 0 \<and> is_anonymous_file (ev_dstPath event))"
      using that(2) assms(4) by auto
    have en: "IsEnabled env (if ev_pid event = 0 then getpid env else ev_pid event)"
      using that(3) pid by simp
    show ?thesis
      unfolding eq using src dst en by (auto simp: create_access_def Let_def split_beta)
  qed
  have rep: "report_access_internal env penv fmt reportGroup eventType reportPath secondPath
                mode err checkCache associatedPid obs =
               SendReport_group penv fmt (SetErrno err (fst (snd ?C))) (snd (snd ?C))"
    by (simp add: report_access_internal_def split_beta)
  have sentinel: "?C = (sNotChecked obs, reportGroup, obs)"
    if "is_anonymous_file reportPath \<or> \<not> IsEnabled env (ev_pid event)"
  proof -
    have "is_anonymous_file (ev_srcPath event)
            \<or> \<not> IsEnabled env (if ev_pid event = 0 then getpid env else ev_pid event)"
      using that pid assms(4) by simp
    then show ?thesis
      unfolding eq by (auto simp: create_access_def Let_def)
  qed
  show ?thesis
    using nf eq pol rep sentinel by (intro conjI impI) (simp_all del: split_paired_All)
qed

lemma sample_access_built:
  "create_access_internal sample_access_env ES_EVENT_TYPE_NOTIFY_STAT ''/tmp/gone'' None
     empty_group 0 True 0 sample_observer =
   (AccessCheckResult RequestedAccess_Read ResultAction_Allow ReportLevel_Report,
    \<lparr>firstReport =
       \<lparr>operation = kOpOther 0, pid = 100, rootPid = 1,
        requestedAccess = RequestedAccess_Read, status = FileAccessStatus_Allowed,
        reportExplicitly = ReportLevel_Report, error = 0, pipId = 7,
        path = ''/tmp/gone'', isDirectory = False, shouldReport = True\<rparr>,
     secondReport =
       \<lparr>operation = kOpOther 0, pid = 100, rootPid = 1,
        requestedAccess = RequestedAccess_Read, status = FileAccessStatus_Allowed,
        reportExplicitly = ReportLevel_Report, error = 0, pipId = 7,
        path = [], isDirectory = False, shouldReport = False\<rparr>\<rparr>,
    observer_with_entry)"
  by (simp add: create_access_internal_def create_access_def IsCacheHit_def CheckCache_def
      default_label_def is_non_file_def is_anonymous_file_def Let_def
      observer_with_entry_def sample_access_env_def sample_observer_def new_BxlObserver_def)

theorem create_access_internal_unknown_mode_witness:
  "get_mode sample_access_env ''/tmp/gone'' = 0
   \<and> \<not> is_non_file (get_mode sample_access_env ''/tmp/gone'')
   \<and> \<not> is_anonymous_file ''/tmp/gone''
   \<and> IsEnabled sample_access_env 100
   \<and> fst (create_access_internal sample_access_env ES_EVENT_TYPE_NOTIFY_STAT ''/tmp/gone''
             None empty_group 0 True 0 sample_observer)
       = AccessCheckResult RequestedAccess_Read ResultAction_Allow ReportLevel_Report
   \<and> report_access_internal sample_access_env accepting_pipe sample_format empty_group
        ES_EVENT_TYPE_NOTIFY_STAT ''/tmp/gone'' None 0 2 True 0 sample_observer
       = ([Write_pipe ''/tmp/bxl.fifo''
             ([char_of (22::nat), NUL, NUL, NUL] @ ''100|1|2|7|/tmp/gone|0'' @ [CHR 0x0A])],
          Inr (True, reset_fd_table_entry 3 observer_with_entry))
   \<and> is_anonymous_file ''/memfd:jit''
   \<and> create_access_internal sample_access_env ES_EVENT_TYPE_NOTIFY_STAT ''/memfd:jit''
        None empty_group 0 True 0 sample_observer
       = (sNotChecked sample_observer, empty_group, sample_observer)"
proof -
  let ?event = "\<lambda>p. \<lparr>ev_pid = (if (0::pid_t) = 0 then getpid sample_access_env else 0),
           ev_cpid = 0, ev_ppid = getppid sample_access_env,
           ev_eventType = ES_EVENT_TYPE_NOTIFY_STAT,
           ev_srcPath = p,
           ev_dstPath = (case (None::string option) of None \<Rightarrow> [] | Some s \<Rightarrow> s),
           ev_execPath = (if ES_EVENT_TYPE_NOTIFY_STAT = ES_EVENT_TYPE_NOTIFY_EXEC then p
                          else progFullPath sample_observer),
           ev_mode = 0, ev_modified = False\<rparr>"
  let ?r = "\<lparr>operation = kOpOther 0, pid = 100, rootPid = 1,
        requestedAccess = RequestedAccess_Read, status = FileAccessStatus_Allowed,
        reportExplicitly = ReportLevel_Report, error = 2, pipId = 7,
        path = ''/tmp/gone'', isDirectory = False, shouldReport = True\<rparr>"
  have m: "get_mode sample_access_env p = 0" for p
    by (simp add: sample_access_env_def)
  have miss: "\<not> (True \<and> fst (IsCacheHit (lockProbe sample_access_env) ES_EVENT_TYPE_NOTIFY_STAT p
                  (case (None::string option) of None \<Rightarrow> [] | Some s \<Rightarrow> s) sample_observer))"
    for p
    by (simp add: IsCacheHit_def CheckCache_def default_label_def Let_def
        sample_access_env_def sample_observer_def new_BxlObserver_def)
  have an: "\<not> is_anonymous_file ''/tmp/gone''" "is_anonymous_file ''/memfd:jit''"
    by (simp_all add: is_anonymous_file_def)
  have en: "IsEnabled sample_access_env 100" "ev_pid (?event p) = 100" for p
    by (simp_all add: sample_access_env_def)
  have rt: "report_text sample_format ?r ''/tmp/gone'' = ''100|1|2|7|/tmp/gone|0'' @ [CHR 0x0A]"
    by (simp add: report_text_def sample_format_def dec_int_def dec_nat.simps) code_simp
  have w: "wire sample_format ?r =
             [char_of (22::nat), NUL, NUL, NUL] @ ''100|1|2|7|/tmp/gone|0'' @ [CHR 0x0A]"
    unfolding wire_def
    apply (simp add: rt)
    apply (simp add: le32_def NUL_def)
    apply code_simp
    done
  have grp: "SetErrno 2 (fst (snd (create_access_internal sample_access_env
               ES_EVENT_TYPE_NOTIFY_STAT ''/tmp/gone'' None empty_group 0 True 0
               sample_observer))) =
     \<lparr>firstReport = ?r,
      secondReport =
       \<lparr>operation = kOpOther 0, pid = 100, rootPid = 1,
        requestedAccess = RequestedAccess_Read, status = FileAccessStatus_Allowed,
        reportExplicitly = ReportLevel_Report, error = 2, pipId = 7,
        path = [], isDirectory = False, shouldReport = False\<rparr>\<rparr>"
    by (simp add: sample_access_built SetErrno_def)
  have snd_obs: "snd (snd (create_access_internal sample_access_env ES_EVENT_TYPE_NOTIFY_STAT
               ''/tmp/gone'' None empty_group 0 True 0 sample_observer)) = observer_with_entry"
    by (simp add: sample_access_built)
  have send: "SendReport_group accepting_pipe sample_format
     \<lparr>firstReport = ?r,
      secondReport =
       \<lparr>operation = kOpOther 0, pid = 100, rootPid = 1,
        requestedAccess = RequestedAccess_Read, status = FileAccessStatus_Allowed,
        reportExplicitly = ReportLevel_Report, error = 2, pipId = 7,
        path = [], isDirectory = False, shouldReport = False\<rparr>\<rparr> observer_with_entry =
     ([Write_pipe ''/tmp/bxl.fifo''
         ([char_of (22::nat), NUL, NUL, NUL] @ ''100|1|2|7|/tmp/gone|0'' @ [CHR 0x0A])],
      Inr (True, reset_fd_table_entry 3 observer_with_entry))"
    by (subst SendReport_group_first_only)
       (simp_all add: rt w accepting_pipe_def PIPE_BUF_def)
  note a = create_access_internal_unknown_mode[where reportGroup = empty_group
      and penv = accepting_pipe and fmt = sample_format and err = 2
      and associatedPid = 0,
      OF refl m[of "''/tmp/gone''"] miss[of "''/tmp/gone''"] refl]
  note b = create_access_internal_unknown_mode[where reportGroup = empty_group
      and penv = accepting_pipe and fmt = sample_format and err = 2
      and associatedPid = 0,
      OF refl m[of "''/memfd:jit''"] miss[of "''/memfd:jit''"] refl]
  have a1: "fst (create_access_internal sample_access_env ES_EVENT_TYPE_NOTIFY_STAT ''/tmp/gone''
             None empty_group 0 True 0 sample_observer)
       = fst (CheckAccessAndBuildReport sample_access_env (?event ''/tmp/gone''))"
    and a2: "fst (snd (create_access_internal sample_access_env ES_EVENT_TYPE_NOTIFY_STAT
             ''/tmp/gone'' None empty_group 0 True 0 sample_observer))
       = snd (CheckAccessAndBuildReport sample_access_env (?event ''/tmp/gone''))"
    and a3: "report_access_internal sample_access_env accepting_pipe sample_format empty_group
        ES_EVENT_TYPE_NOTIFY_STAT ''/tmp/gone'' None 0 2 True 0 sample_observer
       = SendReport_group accepting_pipe sample_format
           (SetErrno 2 (snd (CheckAccessAndBuildReport sample_access_env (?event ''/tmp/gone''))))
           (snd (snd (create_access_internal sample_access_env ES_EVENT_TYPE_NOTIFY_STAT
             ''/tmp/gone'' None empty_group 0 True 0 sample_observer)))"
    using a an(1) en by auto
  have b1: "create_access_internal sample_access_env ES_EVENT_TYPE_NOTIFY_STAT ''/memfd:jit''
        None empty_group 0 True 0 sample_observer
       = (sNotChecked sample_observer, empty_group, sample_observer)"
    using b an(2) by auto
  have r1: "fst (create_access_internal sample_access_env ES_EVENT_TYPE_NOTIFY_STAT ''/tmp/gone''
             None empty_group 0 True 0 sample_observer)
       = AccessCheckResult RequestedAccess_Read ResultAction_Allow ReportLevel_Report"
    unfolding a1 by (simp add: sample_access_env_def)
  have r2: "report_access_internal sample_access_env accepting_pipe sample_format empty_group
        ES_EVENT_TYPE_NOTIFY_STAT ''/tmp/gone'' None 0 2 True 0 sample_observer
       = ([Write_pipe ''/tmp/bxl.fifo''
             ([char_of (22::nat), NUL, NUL, NUL] @ ''100|1|2|7|/tmp/gone|0'' @ [CHR 0x0A])],
          Inr (True, reset_fd_table_entry 3 observer_with_entry))"
    unfolding a3 a2[symmetric] grp snd_obs by (rule send)
  show ?thesis
    using m[of "''/tmp/gone''"] is_non_file_zero an en(1) r1 r2 b1 by simp
qed

end
